theory Spec2Isabelle
  imports Main
begin

section \<open>Strings, bytes and exceptions\<close>

text \<open>
  A Python \<^verbatim>\<open>str\<close> is a sequence of Unicode code points, and \<^verbatim>\<open>len\<close> and slicing count
  code points; it is modelled as a list of code-point numbers. A Python \<^verbatim>\<open>bytes\<close> value is
  a list of 8-bit characters. ASCII literals of the source are written through \<open>ascii\<close>;
  the Chinese literals are given by their code points.
\<close>

type_synonym ustr = "nat list"
type_synonym bytes = "char list"

definition ascii :: "string \<Rightarrow> ustr" where
  "ascii s = map of_char s"

text \<open>
  An exception is its class, as far as the \<^verbatim>\<open>except\<close> clauses of the source tell classes
  apart, and its \<^verbatim>\<open>str(e)\<close>. \<open>Exception\<close> stands for every other subclass of
  \<^verbatim>\<open>Exception\<close>, including the ones the source raises itself.
\<close>

datatype exn_class = IMAP4_error | SMTPAuthenticationError | SMTPException | Exception

datatype exn = Exn (exn_cls: exn_class) (exn_str: ustr)

text \<open>What a method call on \<^verbatim>\<open>None\<close> raises: \<^verbatim>\<open>'NoneType' object has no attribute '...'\<close>.\<close>

definition none_attribute :: "string \<Rightarrow> exn" where
  "none_attribute name =
     Exn Exception ([39] @ ascii ''NoneType'' @ [39] @ ascii '' object has no attribute '' @
       [39] @ ascii name @ [39])"

text \<open>\<^verbatim>\<open>x or default\<close> on an optional string: \<^verbatim>\<open>None\<close> and the empty string are falsy.\<close>

definition str_or :: "ustr option \<Rightarrow> ustr \<Rightarrow> ustr" where
  "str_or x d = (case x of None \<Rightarrow> d | Some s \<Rightarrow> if s = [] then d else s)"

text \<open>The code points for which \<^verbatim>\<open>str.isspace\<close> holds; \<^verbatim>\<open>str.strip()\<close> removes them.\<close>

definition py_isspace :: "nat \<Rightarrow> bool" where
  "py_isspace c \<longleftrightarrow>
     (9 \<le> c \<and> c \<le> 13) \<or> (28 \<le> c \<and> c \<le> 32) \<or> c = 133 \<or> c = 160 \<or> c = 5760 \<or>
     (8192 \<le> c \<and> c \<le> 8202) \<or> c = 8232 \<or> c = 8233 \<or> c = 8239 \<or> c = 8287 \<or> c = 12288"

definition py_strip :: "ustr \<Rightarrow> ustr" where
  "py_strip s = rev (dropWhile py_isspace (rev (dropWhile py_isspace s)))"

text \<open>\<^verbatim>\<open>s.replace(a, b)\<close> for single characters \<open>a\<close> and \<open>b\<close>.\<close>

definition py_replace :: "nat \<Rightarrow> nat \<Rightarrow> ustr \<Rightarrow> ustr" where
  "py_replace a b s = map (\<lambda>c. if c = a then b else c) s"

text \<open>
  \<^verbatim>\<open>xs[start:]\<close>: a negative start counts from the end, and the start is clipped to the
  list.
\<close>

definition py_slice_from :: "int \<Rightarrow> 'a list \<Rightarrow> 'a list" where
  "py_slice_from start xs =
     (let n = int (length xs);
          s = (if start < 0 then max (start + n) 0 else min start n)
      in drop (nat s) xs)"

text \<open>\<^verbatim>\<open>s.split(sep)\<close> for a single-character separator: every occurrence splits.\<close>

fun py_split :: "nat \<Rightarrow> ustr \<Rightarrow> ustr list" where
  "py_split sep [] = [[]]"
| "py_split sep (c # cs) =
     (if c = sep then [] # py_split sep cs
      else (case py_split sep cs of
              [] \<Rightarrow> [[c]]
            | p # ps \<Rightarrow> (c # p) # ps))"

text \<open>
  \<^verbatim>\<open>re.sub(r'<[^>]+>', '', s)\<close>: at a \<^verbatim>\<open><\<close>, the pattern matches when at least one
  character other than \<^verbatim>\<open>></\<close> follows and the run of such characters ends at a \<^verbatim>\<open>></\<close>;
  the match is dropped and the scan goes on behind it. Elsewhere the character is kept.
\<close>

function strip_tags :: "ustr \<Rightarrow> ustr" where
  "strip_tags [] = []"
| "strip_tags (c # cs) =
     (if c = 60 \<and> takeWhile (\<lambda>x. x \<noteq> 62) cs \<noteq> [] \<and> dropWhile (\<lambda>x. x \<noteq> 62) cs \<noteq> []
      then strip_tags (tl (dropWhile (\<lambda>x. x \<noteq> 62) cs))
      else c # strip_tags cs)"
  by pat_completeness auto
termination
proof (relation "measure length")
  show "wf (measure (length :: ustr \<Rightarrow> nat))" by simp
next
  fix c :: nat and cs :: ustr
  have "length (dropWhile (\<lambda>x. x \<noteq> 62) cs) \<le> length cs"
    by (rule length_dropWhile_le)
  then have "length (tl (dropWhile (\<lambda>x. x \<noteq> 62) cs)) \<le> length cs"
    by simp
  then show "(tl (dropWhile (\<lambda>x. x \<noteq> 62) cs), c # cs) \<in> measure length" by simp
next
  fix c :: nat and cs :: ustr
  show "(cs, c # cs) \<in> measure length" by simp
qed

section \<open>Parsed messages and the library functions\<close>

text \<open>
  The structure \<^verbatim>\<open>email.message_from_bytes\<close> returns, as far as the source reads it: a
  part is a leaf with a content type, a declared character set and a payload, or a
  container of parts (\<^verbatim>\<open>is_multipart()\<close>). \<^verbatim>\<open>walk()\<close> yields the part itself and then its
  sub-parts, depth first. \<^verbatim>\<open>get_payload(decode=True)\<close> is \<^verbatim>\<open>None\<close> on a container.
\<close>

datatype mime =
    Leaf (ctype: ustr) (charset: "ustr option") bytes
  | Multi (ctype: ustr) (charset: "ustr option") "mime list"

fun is_multipart :: "mime \<Rightarrow> bool" where
  "is_multipart (Leaf t c p) = False"
| "is_multipart (Multi t c ps) = True"

fun get_payload :: "mime \<Rightarrow> bytes option" where
  "get_payload (Leaf t c p) = Some p"
| "get_payload (Multi t c ps) = None"

fun walk :: "mime \<Rightarrow> mime list" where
  "walk (Leaf t c p) = [Leaf t c p]"
| "walk (Multi t c ps) = Multi t c ps # concat (map walk ps)"

record email =
  hdr_subject :: "ustr option"
  hdr_from :: "ustr option"
  hdr_to :: "ustr option"
  hdr_date :: "ustr option"
  content :: mime

text \<open>A fragment of \<^verbatim>\<open>decode_header\<close>'s result: bytes or text, with the declared encoding.\<close>

datatype fragment = Frag_bytes bytes | Frag_text ustr

text \<open>
  The functions of the standard library that the source calls and that are not part of
  it are parameters of the model:
  \<^item> \<open>decode_strict enc b\<close> is \<^verbatim>\<open>b.decode(enc)\<close>, \<open>decode_ignore enc b\<close> is
    \<^verbatim>\<open>b.decode(enc, errors='ignore')\<close>; both raise on an unknown encoding;
  \<^item> \<open>encode_utf8 s\<close> is \<^verbatim>\<open>s.encode()\<close>;
  \<^item> \<open>ecre_search s\<close> tells whether the header holds an encoded word, and
    \<open>decode_encoded s\<close> is what \<^verbatim>\<open>decode_header\<close> returns on such a header;
  \<^item> \<open>build_message from to subject body\<close> is the text of the \<^verbatim>\<open>MIMEMultipart\<close>
    message with one UTF-8 \<^verbatim>\<open>MIMEText\<close> part (\<^verbatim>\<open>as_string()\<close>).
\<close>

record lib =
  decode_strict :: "ustr \<Rightarrow> bytes \<Rightarrow> exn + ustr"
  decode_ignore :: "ustr \<Rightarrow> bytes \<Rightarrow> exn + ustr"
  encode_utf8 :: "ustr \<Rightarrow> exn + bytes"
  ecre_search :: "ustr \<Rightarrow> bool"
  decode_encoded :: "ustr \<Rightarrow> exn + (fragment \<times> ustr option) list"
  build_message :: "ustr \<Rightarrow> ustr \<Rightarrow> ustr \<Rightarrow> ustr \<Rightarrow> exn + ustr"

text \<open>
  \<^verbatim>\<open>email.header.decode_header\<close>: a header without an encoded word is returned as the
  one fragment \<^verbatim>\<open>(header, None)\<close>.
\<close>

definition decode_header :: "lib \<Rightarrow> ustr \<Rightarrow> exn + (fragment \<times> ustr option) list" where
  "decode_header L s = (if \<not> ecre_search L s then Inr [(Frag_text s, None)] else decode_encoded L s)"

section \<open>What the program does to the outside\<close>

text \<open>
  The effects of a run, in order: the calls to the IMAP and SMTP sessions with the handle
  of the session they go to, \<^verbatim>\<open>time.sleep\<close>, and the logger's records. A log record keeps
  the values the source formats into its message instead of the formatted text.
  \<open>Attempt_begin\<close> records that the body of a retry loop is entered with the given value
  of \<^verbatim>\<open>attempt\<close>; the source has no effect there.
\<close>

datatype op_name = Op_read | Op_send | Op_get

datatype warn_site =
    Decode_warning | Message_warning bytes | Summary_warning | Full_body_warning | Close_warning

datatype info_msg = Imap_connected | Smtp_connected | Connections_closed

datatype event =
    Imap_open nat
  | Imap_open_failed
  | Imap_login nat
  | Imap_select nat ustr
  | Imap_search nat
  | Imap_fetch nat bytes
  | Imap_close nat
  | Imap_logout nat
  | Smtp_open nat
  | Smtp_open_failed
  | Smtp_starttls nat
  | Smtp_login nat
  | Smtp_sendmail nat ustr ustr ustr
  | Smtp_quit nat
  | Sleep int
  | Log_info info_msg
  | Log_warning warn_site ustr
  | Log_error op_name int int ustr
  | Attempt_begin op_name int

section \<open>Header decoding\<close>

text \<open>The loop of \<^verbatim>\<open>decode_mime_words\<close> over the fragments; a failing decode ends it.\<close>

fun decode_fragments :: "lib \<Rightarrow> (fragment \<times> ustr option) list \<Rightarrow> ustr \<Rightarrow> exn + ustr" where
  "decode_fragments L [] decoded_string = Inr decoded_string"
| "decode_fragments L ((Frag_bytes b, encoding) # fs) decoded_string =
     (case (if encoding \<noteq> None \<and> encoding \<noteq> Some []
            then decode_strict L (the encoding) b
            else decode_ignore L (ascii ''utf-8'') b) of
        Inl e \<Rightarrow> Inl e
      | Inr t \<Rightarrow> decode_fragments L fs (decoded_string @ t))"
| "decode_fragments L ((Frag_text t, encoding) # fs) decoded_string =
     decode_fragments L fs (decoded_string @ t)"

definition decode_mime_words :: "lib \<Rightarrow> ustr \<Rightarrow> ustr \<times> event list" where
  "decode_mime_words L s =
     (case decode_header L s of
        Inl e \<Rightarrow> (s, [Log_warning Decode_warning (exn_str e)])
      | Inr decoded_fragments \<Rightarrow>
          (case decode_fragments L decoded_fragments [] of
             Inl e \<Rightarrow> (s, [Log_warning Decode_warning (exn_str e)])
           | Inr decoded_string \<Rightarrow> (decoded_string, [])))"

section \<open>Body extraction\<close>

definition no_content :: ustr where
  "no_content = [0x65E0, 0x6B63, 0x6587, 0x5185, 0x5BB9]"

definition parse_failed :: ustr where
  "parse_failed = [0x6B63, 0x6587, 0x89E3, 0x6790, 0x5931, 0x8D25]"

text \<open>
  \<^verbatim>\<open>charset = part.get_content_charset() or 'utf-8'\<close> and
  \<^verbatim>\<open>part.get_payload(decode=True).decode(charset, errors='ignore')\<close>; on a container the
  payload is \<^verbatim>\<open>None\<close> and the call of \<^verbatim>\<open>decode\<close> raises.
\<close>

definition decode_part :: "lib \<Rightarrow> mime \<Rightarrow> exn + ustr" where
  "decode_part L part =
     (let cs = str_or (charset part) (ascii ''utf-8'')
      in case get_payload part of
           None \<Rightarrow> Inl (none_attribute ''decode'')
         | Some b \<Rightarrow> decode_ignore L cs b)"

text \<open>The loop of \<^verbatim>\<open>extract_body_summary\<close> over \<^verbatim>\<open>walk()\<close>; \<open>body\<close> is still empty.\<close>

fun summary_walk :: "lib \<Rightarrow> mime list \<Rightarrow> exn + ustr" where
  "summary_walk L [] = Inr []"
| "summary_walk L (part # parts) =
     (if ctype part = ascii ''text/plain'' then decode_part L part
      else summary_walk L parts)"

text \<open>The body as the \<^verbatim>\<open>try\<close> block of \<^verbatim>\<open>extract_body_summary\<close> has it before cleaning.\<close>

definition summary_body :: "lib \<Rightarrow> mime \<Rightarrow> exn + ustr" where
  "summary_body L m =
     (if is_multipart m then summary_walk L (walk m) else decode_part L m)"

definition clean_body :: "ustr \<Rightarrow> ustr" where
  "clean_body body = py_replace 13 32 (py_replace 10 32 (py_strip body))"

text \<open>\<^verbatim>\<open>body[:max_length]\<close>: a negative bound counts from the end.\<close>

definition py_slice_to :: "int \<Rightarrow> 'a list \<Rightarrow> 'a list" where
  "py_slice_to stop xs =
     (let n = int (length xs);
          s = (if stop < 0 then max (stop + n) 0 else min stop n)
      in take (nat s) xs)"

definition extract_body_summary :: "lib \<Rightarrow> mime \<Rightarrow> int \<Rightarrow> ustr \<times> event list" where
  "extract_body_summary L m max_length =
     (case summary_body L m of
        Inl e \<Rightarrow> (parse_failed, [Log_warning Summary_warning (exn_str e)])
      | Inr body0 \<Rightarrow>
          (let body1 = clean_body body0;
               body2 = (if int (length body1) > max_length
                        then py_slice_to max_length body1 @ ascii ''...''
                        else body1)
           in (if body2 = [] then no_content else body2, [])))"

text \<open>The loop of \<^verbatim>\<open>extract_full_body\<close> over \<^verbatim>\<open>walk()\<close>, with the body captured so far.\<close>

fun full_walk :: "lib \<Rightarrow> mime list \<Rightarrow> ustr \<Rightarrow> exn + ustr" where
  "full_walk L [] body = Inr body"
| "full_walk L (part # parts) body =
     (if ctype part = ascii ''text/plain'' then decode_part L part
      else if ctype part = ascii ''text/html'' \<and> body = [] then
        (case decode_part L part of
           Inl e \<Rightarrow> Inl e
         | Inr html_body \<Rightarrow> full_walk L parts (strip_tags html_body))
      else full_walk L parts body)"

definition full_body :: "lib \<Rightarrow> mime \<Rightarrow> exn + ustr" where
  "full_body L m =
     (if is_multipart m then full_walk L (walk m) [] else decode_part L m)"

definition extract_full_body :: "lib \<Rightarrow> mime \<Rightarrow> ustr \<times> event list" where
  "extract_full_body L m =
     (case full_body L m of
        Inl e \<Rightarrow> (parse_failed, [Log_warning Full_body_warning (exn_str e)])
      | Inr body \<Rightarrow> (if py_strip body = [] then no_content else py_strip body, []))"

section \<open>The tool, its configuration and the protocol layer\<close>

text \<open>
  Of the configuration, the model keeps the fields whose values the operations read in
  an observable way; the servers, ports and password are arguments of the connecting
  calls only. \<^verbatim>\<open>config.get('retry_count', 3)\<close> and \<^verbatim>\<open>config.get('retry_delay', 2)\<close> read
  optional fields.
\<close>

record config =
  cfg_email :: ustr
  cfg_retry_count :: "int option"
  cfg_retry_delay :: "int option"

definition get_retry_count :: "config \<Rightarrow> int" where
  "get_retry_count c = (case cfg_retry_count c of None \<Rightarrow> 3 | Some n \<Rightarrow> n)"

definition get_retry_delay :: "config \<Rightarrow> int" where
  "get_retry_delay c = (case cfg_retry_delay c of None \<Rightarrow> 2 | Some n \<Rightarrow> n)"

text \<open>
  The state of an \<^verbatim>\<open>MCPMailTool\<close> object and of the world around it: the two session
  slots hold the handle of a session object or nothing; \<open>clock\<close> counts the calls made
  to the protocol layer so far, \<open>next_handle\<close> names the next session object, and
  \<open>trace\<close> is what has happened.
\<close>

record tool =
  config :: config
  imap_conn :: "nat option"
  smtp_conn :: "nat option"
  clock :: nat
  next_handle :: nat
  trace :: "event list"

definition emit :: "event list \<Rightarrow> tool \<Rightarrow> tool" where
  "emit es w = w\<lparr>trace := trace w @ es\<rparr>"

definition tick :: "tool \<Rightarrow> tool" where
  "tick w = w\<lparr>clock := Suc (clock w)\<rparr>"

text \<open>
  The protocol layer (\<^verbatim>\<open>imaplib\<close>, \<^verbatim>\<open>smtplib\<close> and the servers behind them) is a
  parameter: for the call made at a given value of the clock, with the given arguments,
  it raises or returns. A search answers with its status and with
  \<^verbatim>\<open>messages[0].split()\<close>; a fetch answers with its status and with
  \<^verbatim>\<open>email.message_from_bytes(msg_data[0][1])\<close>; either of the two second components may
  raise when the source evaluates it. \<open>now_iso\<close> is
  \<^verbatim>\<open>datetime.datetime.now().isoformat()\<close>.
\<close>

record server =
  imap_open_r :: "nat \<Rightarrow> exn option"
  imap_login_r :: "nat \<Rightarrow> exn option"
  imap_select_r :: "nat \<Rightarrow> ustr \<Rightarrow> exn + ustr"
  imap_search_r :: "nat \<Rightarrow> exn + ustr \<times> (exn + bytes list)"
  imap_fetch_r :: "nat \<Rightarrow> bytes \<Rightarrow> exn + ustr \<times> (exn + email)"
  imap_close_r :: "nat \<Rightarrow> exn option"
  imap_logout_r :: "nat \<Rightarrow> exn option"
  smtp_open_r :: "nat \<Rightarrow> exn option"
  smtp_starttls_r :: "nat \<Rightarrow> exn option"
  smtp_login_r :: "nat \<Rightarrow> exn option"
  smtp_sendmail_r :: "nat \<Rightarrow> ustr \<Rightarrow> ustr \<Rightarrow> ustr \<Rightarrow> exn option"
  smtp_quit_r :: "nat \<Rightarrow> exn option"
  now_iso :: "nat \<Rightarrow> ustr"

section \<open>Connecting\<close>

text \<open>
  \<^verbatim>\<open>str.lower()\<close> on the ASCII letters; the other code points are left as they are,
  which does not change the outcome of the test it is used in.
\<close>

definition py_lower :: "ustr \<Rightarrow> ustr" where
  "py_lower s = map (\<lambda>c. if 65 \<le> c \<and> c \<le> 90 then c + 32 else c) s"

fun starts_with :: "'a list \<Rightarrow> 'a list \<Rightarrow> bool" where
  "starts_with [] s = True"
| "starts_with (p # ps) [] = False"
| "starts_with (p # ps) (c # cs) = (p = c \<and> starts_with ps cs)"

text \<open>\<^verbatim>\<open>sub in s\<close> on strings.\<close>

fun py_contains :: "'a list \<Rightarrow> 'a list \<Rightarrow> bool" where
  "py_contains sub [] = (sub = [])"
| "py_contains sub (c # cs) = (starts_with sub (c # cs) \<or> py_contains sub cs)"

text \<open>The \<^verbatim>\<open>except\<close> clauses of \<^verbatim>\<open>connect_imap\<close>: the exception raised for the one caught.\<close>

definition imap_connect_error :: "exn \<Rightarrow> exn" where
  "imap_connect_error e =
     (if exn_cls e = IMAP4_error then
        (if py_contains (ascii ''authentication failed'') (py_lower (exn_str e))
         then Exn Exception (ascii ''AUTHENTICATION_FAILED: '' @ exn_str e)
         else Exn Exception (ascii ''IMAP_CONNECTION_FAILED: '' @ exn_str e))
      else Exn Exception (ascii ''NETWORK_ERROR: '' @ exn_str e))"

definition connect_imap :: "server \<Rightarrow> tool \<Rightarrow> (exn + bool) \<times> tool" where
  "connect_imap S w =
     (case imap_open_r S (clock w) of
        Some e \<Rightarrow> (Inl (imap_connect_error e), emit [Imap_open_failed] (tick w))
      | None \<Rightarrow>
          (let h = next_handle w;
               w1 = (emit [Imap_open h] (tick w))\<lparr>imap_conn := Some h, next_handle := Suc h\<rparr>
           in case imap_login_r S (clock w1) of
                Some e \<Rightarrow> (Inl (imap_connect_error e), emit [Imap_login h] (tick w1))
              | None \<Rightarrow> (Inr True, emit [Imap_login h, Log_info Imap_connected] (tick w1))))"

text \<open>The \<^verbatim>\<open>except\<close> clauses of \<^verbatim>\<open>connect_smtp\<close>.\<close>

definition smtp_connect_error :: "exn \<Rightarrow> exn" where
  "smtp_connect_error e =
     (if exn_cls e = SMTPAuthenticationError
      then Exn Exception (ascii ''AUTHENTICATION_FAILED: '' @ exn_str e)
      else if exn_cls e = SMTPException
      then Exn Exception (ascii ''SMTP_CONNECTION_FAILED: '' @ exn_str e)
      else Exn Exception (ascii ''NETWORK_ERROR: '' @ exn_str e))"

definition connect_smtp :: "server \<Rightarrow> tool \<Rightarrow> (exn + bool) \<times> tool" where
  "connect_smtp S w =
     (case smtp_open_r S (clock w) of
        Some e \<Rightarrow> (Inl (smtp_connect_error e), emit [Smtp_open_failed] (tick w))
      | None \<Rightarrow>
          (let h = next_handle w;
               w1 = (emit [Smtp_open h] (tick w))\<lparr>smtp_conn := Some h, next_handle := Suc h\<rparr>
           in case smtp_starttls_r S (clock w1) of
                Some e \<Rightarrow> (Inl (smtp_connect_error e), emit [Smtp_starttls h] (tick w1))
              | None \<Rightarrow>
                  (let w2 = emit [Smtp_starttls h] (tick w1)
                   in case smtp_login_r S (clock w2) of
                        Some e \<Rightarrow> (Inl (smtp_connect_error e), emit [Smtp_login h] (tick w2))
                      | None \<Rightarrow>
                          (Inr True, emit [Smtp_login h, Log_info Smtp_connected] (tick w2)))))"

section \<open>The retry loop\<close>

text \<open>
  \<^verbatim>\<open>mail_read\<close>, \<^verbatim>\<open>mail_send\<close> and \<^verbatim>\<open>mail_get\<close> wrap their work in the same loop
  \<^verbatim>\<open>for attempt in range(retry_count): try: ... except Exception as e: ...\<close>; the three
  copies differ in the body of the \<^verbatim>\<open>try\<close>, in the session slot the handler resets and
  in the fields of the result. \<open>retry_loop\<close> is that loop from the value \<open>attempt\<close> on:
  \<open>body\<close> is the \<^verbatim>\<open>try\<close> block, which returns or raises, and \<open>reset\<close> clears the slot.
  The handler logs, and then either sleeps and clears the slot, or returns the failure
  (\<open>Gave_up\<close>). \<^verbatim>\<open>time.sleep\<close> raises on a negative duration, and nothing catches
  that (\<open>Escaped\<close>). When the range is used up the loop ends and the function returns
  \<^verbatim>\<open>None\<close> (\<open>Fell_through\<close>).
\<close>

datatype 'a loop_result = Escaped exn | Fell_through | Gave_up exn | Done 'a

function retry_loop ::
  "(tool \<Rightarrow> (exn + 'a) \<times> tool) \<Rightarrow> (tool \<Rightarrow> tool) \<Rightarrow> op_name \<Rightarrow> int \<Rightarrow> int \<Rightarrow> int \<Rightarrow> tool
     \<Rightarrow> 'a loop_result \<times> tool" where
  "retry_loop body reset opn retry_count retry_delay attempt w =
     (if attempt < retry_count then
        (case body (emit [Attempt_begin opn attempt] w) of
           (Inr r, w1) \<Rightarrow> (Done r, w1)
         | (Inl e, w1) \<Rightarrow>
             (let w2 = emit [Log_error opn (attempt + 1) retry_count (exn_str e)] w1
              in if attempt < retry_count - 1
                 then (if retry_delay < 0
                       then (Escaped (Exn Exception (ascii ''sleep length must be non-negative'')), w2)
                       else retry_loop body reset opn retry_count retry_delay (attempt + 1)
                              (reset (emit [Sleep retry_delay] w2)))
                 else (Gave_up e, w2)))
      else (Fell_through, w))"
  by pat_completeness auto
termination
  by (relation "measure (\<lambda>(body, reset, opn, retry_count, retry_delay, attempt, w).
        nat (retry_count - attempt))") auto

declare retry_loop.simps [simp del]

text \<open>
  What a call of an operation comes to: an exception leaves it, or it returns
  \<^verbatim>\<open>None\<close>, or it returns a result dictionary.
\<close>

datatype 'r outcome = Raises exn | Returns_None | Returns 'r

section \<open>Reading the list of messages\<close>

record summary =
  s_id :: ustr
  s_subject :: ustr
  s_sender :: ustr
  s_date :: ustr
  s_body_summary :: ustr

datatype read_result = Read_ok "summary list" int | Read_failed ustr "summary list" int

definition no_subject :: ustr where
  "no_subject = [0x65E0, 0x4E3B, 0x9898]"

definition unknown_sender :: ustr where
  "unknown_sender = [0x672A, 0x77E5, 0x53D1, 0x4EF6, 0x4EBA]"

definition unknown_time :: ustr where
  "unknown_time = [0x672A, 0x77E5, 0x65F6, 0x95F4]"

definition unknown_recipient :: ustr where
  "unknown_recipient = [0x672A, 0x77E5, 0x6536, 0x4EF6, 0x4EBA]"

definition folder_not_found :: "ustr \<Rightarrow> ustr" where
  "folder_not_found folder =
     ascii ''FOLDER_NOT_FOUND: '' @ [0x65E0, 0x6CD5, 0x8BBF, 0x95EE, 0x6587, 0x4EF6, 0x5939, 0x20] @ folder"

definition search_failed :: ustr where
  "search_failed = [0x90AE, 0x4EF6, 0x641C, 0x7D22, 0x5931, 0x8D25]"

text \<open>
  \<^verbatim>\<open>message_ids[-limit:] if len(message_ids) >= limit else message_ids\<close>, then
  \<^verbatim>\<open>reverse()\<close>.
\<close>

definition latest_ids :: "int \<Rightarrow> 'a list \<Rightarrow> 'a list" where
  "latest_ids limit message_ids =
     rev (if int (length message_ids) \<ge> limit then py_slice_from (- limit) message_ids
          else message_ids)"

text \<open>
  The loop over \<^verbatim>\<open>latest_ids\<close>, on the session \<open>h\<close>: every exception inside is logged and
  the message is left out; so is a message whose fetch status is not \<^verbatim>\<open>OK\<close>, without a
  log record.
\<close>

fun fetch_messages ::
  "lib \<Rightarrow> server \<Rightarrow> nat \<Rightarrow> bytes list \<Rightarrow> summary list \<Rightarrow> tool \<Rightarrow> summary list \<times> tool" where
  "fetch_messages L S h [] emails w = (emails, w)"
| "fetch_messages L S h (msg_id # ids) emails w =
     (let w1 = emit [Imap_fetch h msg_id] (tick w)
      in case imap_fetch_r S (clock w) msg_id of
           Inl e \<Rightarrow>
             fetch_messages L S h ids emails
               (emit [Log_warning (Message_warning msg_id) (exn_str e)] w1)
         | Inr (status, data) \<Rightarrow>
             if status \<noteq> ascii ''OK'' then fetch_messages L S h ids emails w1
             else
               (case data of
                  Inl e \<Rightarrow>
                    fetch_messages L S h ids emails
                      (emit [Log_warning (Message_warning msg_id) (exn_str e)] w1)
                | Inr email_message \<Rightarrow>
                    (let (subject, ev1) =
                           decode_mime_words L (str_or (hdr_subject email_message) no_subject);
                         (sender, ev2) =
                           decode_mime_words L (str_or (hdr_from email_message) unknown_sender);
                         date = str_or (hdr_date email_message) unknown_time;
                         (body_summary, ev3) =
                           extract_body_summary L (content email_message) 200;
                         w2 = emit (ev1 @ ev2 @ ev3) w1
                     in case decode_strict L (ascii ''utf-8'') msg_id of
                          Inl e \<Rightarrow>
                            fetch_messages L S h ids emails
                              (emit [Log_warning (Message_warning msg_id) (exn_str e)] w2)
                        | Inr id_str \<Rightarrow>
                            fetch_messages L S h ids
                              (emails @ [\<lparr>s_id = id_str, s_subject = subject, s_sender = sender,
                                 s_date = date, s_body_summary = body_summary\<rparr>]) w2)))"

text \<open>The \<^verbatim>\<open>try\<close> block of \<^verbatim>\<open>mail_read\<close> once the session slot holds \<open>h\<close>.\<close>

definition read_session ::
  "lib \<Rightarrow> server \<Rightarrow> ustr \<Rightarrow> int \<Rightarrow> nat \<Rightarrow> tool \<Rightarrow> (exn + summary list \<times> int) \<times> tool" where
  "read_session L S folder limit h w =
     (let w1 = emit [Imap_select h folder] (tick w)
      in case imap_select_r S (clock w) folder of
           Inl e \<Rightarrow> (Inl e, w1)
         | Inr status \<Rightarrow>
             if status \<noteq> ascii ''OK'' then (Inl (Exn Exception (folder_not_found folder)), w1)
             else
               (let w2 = emit [Imap_search h] (tick w1)
                in case imap_search_r S (clock w1) of
                     Inl e \<Rightarrow> (Inl e, w2)
                   | Inr (status2, split) \<Rightarrow>
                       if status2 \<noteq> ascii ''OK'' then (Inl (Exn Exception search_failed), w2)
                       else
                         (case split of
                            Inl e \<Rightarrow> (Inl e, w2)
                          | Inr message_ids \<Rightarrow>
                              if message_ids = [] then (Inr ([], 0), w2)
                              else
                                (case fetch_messages L S h (latest_ids limit message_ids) [] w2 of
                                   (emails, w3) \<Rightarrow> (Inr (emails, int (length emails)), w3)))))"

text \<open>The \<^verbatim>\<open>try\<close> block of \<^verbatim>\<open>mail_read\<close>.\<close>

definition read_attempt ::
  "lib \<Rightarrow> server \<Rightarrow> ustr \<Rightarrow> int \<Rightarrow> tool \<Rightarrow> (exn + summary list \<times> int) \<times> tool" where
  "read_attempt L S folder limit w =
     (case imap_conn w of
        Some h \<Rightarrow> read_session L S folder limit h w
      | None \<Rightarrow>
          (case connect_imap S w of
             (Inl e, w1) \<Rightarrow> (Inl e, w1)
           | (Inr ok, w1) \<Rightarrow>
               (case imap_conn w1 of
                  Some h \<Rightarrow> read_session L S folder limit h w1
                | None \<Rightarrow> (Inl (none_attribute ''select''), w1))))"

definition reset_imap :: "tool \<Rightarrow> tool" where
  "reset_imap w = w\<lparr>imap_conn := None\<rparr>"

definition mail_read ::
  "lib \<Rightarrow> server \<Rightarrow> ustr \<Rightarrow> int \<Rightarrow> tool \<Rightarrow> read_result outcome \<times> tool" where
  "mail_read L S folder limit w =
     (let retry_count = get_retry_count (config w);
          retry_delay = get_retry_delay (config w)
      in case retry_loop (read_attempt L S folder limit) reset_imap Op_read
                retry_count retry_delay 0 w of
           (Escaped e, w') \<Rightarrow> (Raises e, w')
         | (Fell_through, w') \<Rightarrow> (Returns_None, w')
         | (Gave_up e, w') \<Rightarrow> (Returns (Read_failed (exn_str e) [] 0), w')
         | (Done (emails, count), w') \<Rightarrow> (Returns (Read_ok emails count), w'))"

section \<open>Sending\<close>

datatype send_result = Send_ok ustr ustr | Send_failed ustr "ustr option"

definition invalid_email_format :: ustr where
  "invalid_email_format =
     ascii ''INVALID_EMAIL_FORMAT: '' @
       [0x6536, 0x4EF6, 0x4EBA, 0x90AE, 0x7BB1, 0x683C, 0x5F0F, 0x65E0, 0x6548]"

text \<open>
  \<^verbatim>\<open>'@' not in to or '.' not in to.split('@')[1]\<close>; the index raises on a list of fewer
  than two elements.
\<close>

definition recipient_invalid :: "ustr \<Rightarrow> exn + bool" where
  "recipient_invalid to =
     (if 64 \<notin> set to then Inr True
      else (case py_split 64 to of
              a # d # rest \<Rightarrow> Inr (46 \<notin> set d)
            | _ \<Rightarrow> Inl (Exn Exception (ascii ''list index out of range''))))"

text \<open>The \<^verbatim>\<open>try\<close> block of \<^verbatim>\<open>mail_send\<close> once the session slot holds \<open>h\<close>.\<close>

definition send_session ::
  "lib \<Rightarrow> server \<Rightarrow> ustr \<Rightarrow> ustr \<Rightarrow> ustr \<Rightarrow> nat \<Rightarrow> tool \<Rightarrow> (exn + ustr \<times> ustr) \<times> tool" where
  "send_session L S to subject body h w =
     (case build_message L (cfg_email (config w)) to subject body of
        Inl e \<Rightarrow> (Inl e, w)
      | Inr text \<Rightarrow>
          (let w1 = emit [Smtp_sendmail h (cfg_email (config w)) to text] (tick w)
           in case smtp_sendmail_r S (clock w) (cfg_email (config w)) to text of
                Some e \<Rightarrow> (Inl e, w1)
              | None \<Rightarrow> (Inr (ascii ''Email sent to '' @ to, now_iso S (clock w1)), w1)))"

definition send_attempt ::
  "lib \<Rightarrow> server \<Rightarrow> ustr \<Rightarrow> ustr \<Rightarrow> ustr \<Rightarrow> tool \<Rightarrow> (exn + ustr \<times> ustr) \<times> tool" where
  "send_attempt L S to subject body w =
     (case smtp_conn w of
        Some h \<Rightarrow> send_session L S to subject body h w
      | None \<Rightarrow>
          (case connect_smtp S w of
             (Inl e, w1) \<Rightarrow> (Inl e, w1)
           | (Inr ok, w1) \<Rightarrow>
               (case smtp_conn w1 of
                  Some h \<Rightarrow> send_session L S to subject body h w1
                | None \<Rightarrow> (Inl (none_attribute ''sendmail''), w1))))"

definition reset_smtp :: "tool \<Rightarrow> tool" where
  "reset_smtp w = w\<lparr>smtp_conn := None\<rparr>"

definition mail_send ::
  "lib \<Rightarrow> server \<Rightarrow> ustr \<Rightarrow> ustr \<Rightarrow> ustr \<Rightarrow> tool \<Rightarrow> send_result outcome \<times> tool" where
  "mail_send L S to subject body w =
     (let retry_count = get_retry_count (config w);
          retry_delay = get_retry_delay (config w)
      in case recipient_invalid to of
           Inl e \<Rightarrow> (Raises e, w)
         | Inr True \<Rightarrow> (Returns (Send_failed invalid_email_format None), w)
         | Inr False \<Rightarrow>
             (case retry_loop (send_attempt L S to subject body) reset_smtp Op_send
                     retry_count retry_delay 0 w of
                (Escaped e, w') \<Rightarrow> (Raises e, w')
              | (Fell_through, w') \<Rightarrow> (Returns_None, w')
              | (Gave_up e, w') \<Rightarrow>
                  (Returns (Send_failed (exn_str e) (Some (now_iso S (clock w')))), w')
              | (Done (message, timestamp), w') \<Rightarrow> (Returns (Send_ok message timestamp), w')))"

section \<open>Fetching one message\<close>

record detail =
  d_id :: ustr
  d_subject :: ustr
  d_sender :: ustr
  d_to :: ustr
  d_date :: ustr
  d_body :: ustr

datatype get_result = Get_ok detail | Get_failed ustr

definition email_not_found :: "ustr \<Rightarrow> ustr" where
  "email_not_found email_id =
     ascii ''EMAIL_NOT_FOUND: '' @ [0x90AE, 0x4EF6, 0x49, 0x44, 0x20] @ email_id @
       [0x20, 0x4E0D, 0x5B58, 0x5728]"

text \<open>The \<^verbatim>\<open>try\<close> block of \<^verbatim>\<open>mail_get\<close> once the session slot holds \<open>h\<close>.\<close>

definition get_session ::
  "lib \<Rightarrow> server \<Rightarrow> ustr \<Rightarrow> nat \<Rightarrow> tool \<Rightarrow> (exn + detail) \<times> tool" where
  "get_session L S email_id h w =
     (let w1 = emit [Imap_select h (ascii ''INBOX'')] (tick w)
      in case imap_select_r S (clock w) (ascii ''INBOX'') of
           Inl e \<Rightarrow> (Inl e, w1)
         | Inr status0 \<Rightarrow>
             (case encode_utf8 L email_id of
                Inl e \<Rightarrow> (Inl e, w1)
              | Inr id_bytes \<Rightarrow>
                  (let w2 = emit [Imap_fetch h id_bytes] (tick w1)
                   in case imap_fetch_r S (clock w1) id_bytes of
                        Inl e \<Rightarrow> (Inl e, w2)
                      | Inr (status, data) \<Rightarrow>
                          if status \<noteq> ascii ''OK''
                          then (Inl (Exn Exception (email_not_found email_id)), w2)
                          else
                            (case data of
                               Inl e \<Rightarrow> (Inl e, w2)
                             | Inr email_message \<Rightarrow>
                                 (let (subject, ev1) =
                                        decode_mime_words L
                                          (str_or (hdr_subject email_message) no_subject);
                                      (sender, ev2) =
                                        decode_mime_words L
                                          (str_or (hdr_from email_message) unknown_sender);
                                      (to, ev3) =
                                        decode_mime_words L
                                          (str_or (hdr_to email_message) unknown_recipient);
                                      date = str_or (hdr_date email_message) unknown_time;
                                      (body, ev4) = extract_full_body L (content email_message)
                                  in (Inr \<lparr>d_id = email_id, d_subject = subject,
                                            d_sender = sender, d_to = to, d_date = date,
                                            d_body = body\<rparr>,
                                      emit (ev1 @ ev2 @ ev3 @ ev4) w2))))))"

definition get_attempt :: "lib \<Rightarrow> server \<Rightarrow> ustr \<Rightarrow> tool \<Rightarrow> (exn + detail) \<times> tool" where
  "get_attempt L S email_id w =
     (case imap_conn w of
        Some h \<Rightarrow> get_session L S email_id h w
      | None \<Rightarrow>
          (case connect_imap S w of
             (Inl e, w1) \<Rightarrow> (Inl e, w1)
           | (Inr ok, w1) \<Rightarrow>
               (case imap_conn w1 of
                  Some h \<Rightarrow> get_session L S email_id h w1
                | None \<Rightarrow> (Inl (none_attribute ''select''), w1))))"

definition mail_get :: "lib \<Rightarrow> server \<Rightarrow> ustr \<Rightarrow> tool \<Rightarrow> get_result outcome \<times> tool" where
  "mail_get L S email_id w =
     (let retry_count = get_retry_count (config w);
          retry_delay = get_retry_delay (config w)
      in case retry_loop (get_attempt L S email_id) reset_imap Op_get
                retry_count retry_delay 0 w of
           (Escaped e, w') \<Rightarrow> (Raises e, w')
         | (Fell_through, w') \<Rightarrow> (Returns_None, w')
         | (Gave_up e, w') \<Rightarrow> (Returns (Get_failed (exn_str e)), w')
         | (Done d, w') \<Rightarrow> (Returns (Get_ok d), w'))"

section \<open>Closing\<close>

text \<open>
  The two \<^verbatim>\<open>if\<close> statements of the \<^verbatim>\<open>try\<close> block of \<^verbatim>\<open>close_connections\<close>; a slot is
  cleared after its closing calls have returned.
\<close>

definition close_imap :: "server \<Rightarrow> tool \<Rightarrow> (exn + unit) \<times> tool" where
  "close_imap S w =
     (case imap_conn w of
        None \<Rightarrow> (Inr (), w)
      | Some h \<Rightarrow>
          (let w1 = emit [Imap_close h] (tick w)
           in case imap_close_r S (clock w) of
                Some e \<Rightarrow> (Inl e, w1)
              | None \<Rightarrow>
                  (let w2 = emit [Imap_logout h] (tick w1)
                   in case imap_logout_r S (clock w1) of
                        Some e \<Rightarrow> (Inl e, w2)
                      | None \<Rightarrow> (Inr (), w2\<lparr>imap_conn := None\<rparr>))))"

definition close_smtp :: "server \<Rightarrow> tool \<Rightarrow> (exn + unit) \<times> tool" where
  "close_smtp S w =
     (case smtp_conn w of
        None \<Rightarrow> (Inr (), w)
      | Some h \<Rightarrow>
          (let w1 = emit [Smtp_quit h] (tick w)
           in case smtp_quit_r S (clock w) of
                Some e \<Rightarrow> (Inl e, w1)
              | None \<Rightarrow> (Inr (), w1\<lparr>smtp_conn := None\<rparr>)))"

text \<open>The \<^verbatim>\<open>try\<close> block of \<^verbatim>\<open>close_connections\<close>.\<close>

definition close_try :: "server \<Rightarrow> tool \<Rightarrow> (exn + unit) \<times> tool" where
  "close_try S w =
     (case close_imap S w of
        (Inl e, w1) \<Rightarrow> (Inl e, w1)
      | (Inr u, w1) \<Rightarrow>
          (case close_smtp S w1 of
             (Inl e, w2) \<Rightarrow> (Inl e, w2)
           | (Inr u', w2) \<Rightarrow> (Inr (), emit [Log_info Connections_closed] w2)))"

text \<open>
  \<^verbatim>\<open>close_connections\<close>: the handler logs what the \<^verbatim>\<open>try\<close> block raised; the result says
  whether an exception leaves the function.
\<close>

definition close_connections :: "server \<Rightarrow> tool \<Rightarrow> unit outcome \<times> tool" where
  "close_connections S w =
     (case close_try S w of
        (Inl e, w') \<Rightarrow> (Returns_None, emit [Log_warning Close_warning (exn_str e)] w')
      | (Inr u, w') \<Rightarrow> (Returns_None, w'))"

section \<open>Observing a run\<close>

text \<open>The events a call has added to the trace.\<close>

definition events_since :: "tool \<Rightarrow> tool \<Rightarrow> event list" where
  "events_since w w' = drop (length (trace w)) (trace w')"

text \<open>
  The durations slept, the values of \<^verbatim>\<open>attempt\<close> with which the loop body was entered,
  and the error texts of the handler's log records, each in order.
\<close>

fun sleeps :: "event list \<Rightarrow> int list" where
  "sleeps [] = []"
| "sleeps (Sleep d # es) = d # sleeps es"
| "sleeps (e # es) = sleeps es"

fun attempts :: "event list \<Rightarrow> int list" where
  "attempts [] = []"
| "attempts (Attempt_begin opn a # es) = a # attempts es"
| "attempts (e # es) = attempts es"

fun failures :: "event list \<Rightarrow> ustr list" where
  "failures [] = []"
| "failures (Log_error opn a n msg # es) = msg # failures es"
| "failures (e # es) = failures es"

text \<open>The events of the retry loop itself, as opposed to those of a \<^verbatim>\<open>try\<close> block.\<close>

fun loop_event :: "event \<Rightarrow> bool" where
  "loop_event (Sleep d) = True"
| "loop_event (Log_error opn a n msg) = True"
| "loop_event (Attempt_begin opn a) = True"
| "loop_event e = False"

text \<open>How a call of an operation ended, for the retry loop: with a success result, with a
  failure result carrying an error text, or otherwise.\<close>

datatype verdict = Succeeded | Failed ustr | Other




text \<open>
  What the specification says of a run of the retry loop with the events \<open>es\<close> and the
  verdict \<open>v\<close>. Every attempt has failed when there are as many failure records as
  attempts; the run has failed exactly \<open>retry_count - 1\<close> times when there are that many
  failure records.
\<close>

definition retry_run :: "int \<Rightarrow> int \<Rightarrow> event list \<Rightarrow> verdict \<Rightarrow> bool" where
  "retry_run retry_count retry_delay es v \<longleftrightarrow>
     (length (failures es) = length (attempts es) \<longrightarrow>
        v = Failed (last (failures es)) \<and> attempts es = [0..retry_count - 1] \<and>
        sleeps es = replicate (nat (retry_count - 1)) retry_delay) \<and>
     (int (length (failures es)) = retry_count - 1 \<longrightarrow>
        v = Succeeded \<and> attempts es = [0..retry_count - 1] \<and>
        sleeps es = replicate (nat (retry_count - 1)) retry_delay) \<and>
     (v = Succeeded \<longrightarrow> length (attempts es) = length (failures es) + 1)"










text \<open>The domain portion of a recipient in the specification's words: the text after \<^verbatim>\<open>@\<close>.\<close>

definition text_after_at :: "ustr \<Rightarrow> ustr" where
  "text_after_at to = tl (dropWhile (\<lambda>c. c \<noteq> 64) to)"

text \<open>
  The events a \<^verbatim>\<open>try\<close> block produces on an established session, and the relation
  between a state and a later one whose trace has grown by events of a given kind.
\<close>

fun session_event :: "event \<Rightarrow> bool" where
  "session_event (Imap_select h folder) = True"
| "session_event (Imap_search h) = True"
| "session_event (Imap_fetch h msg_id) = True"
| "session_event (Smtp_sendmail h sender to text) = True"
| "session_event (Log_warning site msg) = True"
| "session_event e = False"

definition adds :: "(event \<Rightarrow> bool) \<Rightarrow> tool \<Rightarrow> tool \<Rightarrow> bool" where
  "adds P w w' \<longleftrightarrow> (\<exists>es. trace w' = trace w @ es \<and> list_all P es)"

section \<open>A library, servers and messages for concrete runs\<close>

text \<open>
  A library for runs on ASCII data. On the inputs of the runs below (ASCII bytes and
  text, the encodings \<^verbatim>\<open>utf-8\<close> and \<^verbatim>\<open>x-unknown\<close>, headers without \<^verbatim>\<open>=?\<close>) it answers
  as the standard library does: ASCII bytes decode to the same characters, and an
  encoding name that is not registered raises \<^verbatim>\<open>LookupError\<close>. Its other answers, and the
  text \<open>build_message\<close> returns, are placeholders.
\<close>

definition unknown_encoding :: "ustr \<Rightarrow> exn" where
  "unknown_encoding enc = Exn Exception (ascii ''unknown encoding: '' @ enc)"

definition ascii_lib :: lib where
  "ascii_lib = \<lparr>
     decode_strict = (\<lambda>enc b.
        if enc = ascii ''utf-8'' \<or> enc = ascii ''ascii''
        then (if list_all (\<lambda>c. (of_char c :: nat) < 128) b then Inr (map of_char b)
              else Inl (Exn Exception (ascii ''codec cannot decode byte'')))
        else Inl (unknown_encoding enc)),
     decode_ignore = (\<lambda>enc b.
        if enc = ascii ''utf-8'' \<or> enc = ascii ''ascii''
        then Inr (filter (\<lambda>c. c < 128) (map of_char b))
        else Inl (unknown_encoding enc)),
     encode_utf8 = (\<lambda>s.
        if list_all (\<lambda>c. c < 128) s then Inr (map char_of s)
        else Inl (Exn Exception (ascii ''outside ASCII''))),
     ecre_search = (\<lambda>s. py_contains (ascii ''=?'') s),
     decode_encoded = (\<lambda>s. Inl (Exn Exception (ascii ''encoded word''))),
     build_message = (\<lambda>sender to subject body.
        Inr (ascii ''From: '' @ sender @ [10] @ ascii ''To: '' @ to @ [10] @
             ascii ''Subject: '' @ subject @ [10, 10] @ body)) \<rparr>"

text \<open>A tool as \<^verbatim>\<open>__init__\<close> leaves it, with no retry settings in its configuration.\<close>

definition tool0 :: tool where
  "tool0 = \<lparr>config = \<lparr>cfg_email = ascii ''me@example.com'', cfg_retry_count = None,
                        cfg_retry_delay = None\<rparr>,
            imap_conn = None, smtp_conn = None, clock = 0, next_handle = 0, trace = []\<rparr>"

definition timed_out :: exn where
  "timed_out = Exn Exception (ascii ''timed out'')"

text \<open>What \<^verbatim>\<open>connect_imap\<close> and \<^verbatim>\<open>connect_smtp\<close> raise when the connection times out.\<close>

definition network_error :: exn where
  "network_error = Exn Exception (ascii ''NETWORK_ERROR: '' @ ascii ''timed out'')"

text \<open>A tool configured with \<^verbatim>\<open>"retry_count": 0\<close>, and one with \<^verbatim>\<open>"retry_delay": -1\<close>.\<close>

definition tool_no_retries :: tool where
  "tool_no_retries = tool0\<lparr>config := (config tool0)\<lparr>cfg_retry_count := Some 0\<rparr>\<rparr>"

definition tool_negative_delay :: tool where
  "tool_negative_delay = tool0\<lparr>config := (config tool0)\<lparr>cfg_retry_delay := Some (- 1)\<rparr>\<rparr>"

definition plain_mail :: email where
  "plain_mail = \<lparr>hdr_subject = Some (ascii ''Hello''), hdr_from = Some (ascii ''a@example.com''),
     hdr_to = Some (ascii ''me@example.com''), hdr_date = Some (ascii ''Mon, 1 Jan 2024''),
     content = Leaf (ascii ''text/plain'') None ''Hi there''\<rparr>"

text \<open>The summary \<^verbatim>\<open>mail_read\<close> makes of \<open>plain_mail\<close> fetched under an identifier.\<close>

definition plain_summary :: "ustr \<Rightarrow> summary" where
  "plain_summary id_str = \<lparr>s_id = id_str, s_subject = ascii ''Hello'',
     s_sender = ascii ''a@example.com'', s_date = ascii ''Mon, 1 Jan 2024'',
     s_body_summary = ascii ''Hi there''\<rparr>"

text \<open>A server on which every call succeeds; the mailbox holds the given identifiers.\<close>

definition server_ok :: "bytes list \<Rightarrow> server" where
  "server_ok ids = \<lparr>
     imap_open_r = (\<lambda>i. None), imap_login_r = (\<lambda>i. None),
     imap_select_r = (\<lambda>i folder. Inr (ascii ''OK'')),
     imap_search_r = (\<lambda>i. Inr (ascii ''OK'', Inr ids)),
     imap_fetch_r = (\<lambda>i msg_id. Inr (ascii ''OK'', Inr plain_mail)),
     imap_close_r = (\<lambda>i. None), imap_logout_r = (\<lambda>i. None),
     smtp_open_r = (\<lambda>i. None), smtp_starttls_r = (\<lambda>i. None), smtp_login_r = (\<lambda>i. None),
     smtp_sendmail_r = (\<lambda>i sender to text. None), smtp_quit_r = (\<lambda>i. None),
     now_iso = (\<lambda>i. ascii ''2024-01-01T00:00:00'')\<rparr>"


text \<open>A server that can never be reached.\<close>

definition server_down :: server where
  "server_down = (server_ok [])\<lparr>
     imap_open_r := (\<lambda>i. Some timed_out),
     smtp_open_r := (\<lambda>i. Some timed_out)\<rparr>"


text \<open>A server that refuses the IMAP \<^verbatim>\<open>CLOSE\<close> command.\<close>

definition server_no_close :: server where
  "server_no_close = (server_ok [])\<lparr>
     imap_close_r := (\<lambda>i. Some (Exn IMAP4_error (ascii ''command CLOSE illegal in state AUTH'')))\<rparr>"

text \<open>A tool whose two session slots hold sessions.\<close>

definition tool_connected :: tool where
  "tool_connected = tool0\<lparr>imap_conn := Some 0, smtp_conn := Some 1, clock := 5, next_handle := 2\<rparr>"

text \<open>A multipart message with an HTML part only.\<close>

definition html_only :: mime where
  "html_only = Multi (ascii ''multipart/alternative'') None
     [Leaf (ascii ''text/html'') None ''<p>Hi</p>'']"

text \<open>
  A multipart message whose HTML part declares an encoding that is not registered and
  comes before a plain part of 201 characters.
\<close>

definition html_then_plain :: mime where
  "html_then_plain = Multi (ascii ''multipart/alternative'') None
     [Leaf (ascii ''text/html'') (Some (ascii ''x-unknown'')) ''<p>Hi</p>'',
      Leaf (ascii ''text/plain'') None (replicate 201 (CHR ''a''))]"

text \<open>A multipart message whose only part is HTML and holds 201 characters of text.\<close>

definition html_only_long :: mime where
  "html_only_long = Multi (ascii ''multipart/alternative'') None
     [Leaf (ascii ''text/html'') None (replicate 201 (CHR ''a''))]"

text \<open>
  A server whose mailbox lacks the folder asked for: \<^verbatim>\<open>select\<close> answers \<^verbatim>\<open>NO\<close>, the
  session stays in the authenticated state, and \<^verbatim>\<open>close\<close>, which is legal in the selected
  state only, raises.
\<close>

definition server_missing_folder :: server where
  "server_missing_folder = (server_ok [])\<lparr>
     imap_select_r := (\<lambda>i folder. Inr (ascii ''NO'')),
     imap_close_r := (\<lambda>i. Some (Exn IMAP4_error
       (ascii ''command CLOSE illegal in state AUTH, only allowed in states SELECTED'')))\<rparr>"

text \<open>A server that drops the SMTP connection before \<^verbatim>\<open>quit\<close>.\<close>

definition server_no_quit :: server where
  "server_no_quit = (server_ok [])\<lparr>
     smtp_quit_r := (\<lambda>i. Some (Exn SMTPException (ascii ''Connection unexpectedly closed'')))\<rparr>"

section \<open>Properties of the pure functions\<close>

lemma ascii_simps:
  "ascii [] = []"
  "ascii (c # cs) = of_char c # ascii cs"
  by (simp_all add: ascii_def)

lemma py_split_head:
  "\<exists>rest. py_split sep s = takeWhile (\<lambda>c. c \<noteq> sep) s # rest"
  by (induction s) (auto split: list.splits)

lemma py_split_second:
  "sep \<in> set s \<Longrightarrow> \<exists>rest. py_split sep s =
     takeWhile (\<lambda>c. c \<noteq> sep) s #
     takeWhile (\<lambda>c. c \<noteq> sep) (tl (dropWhile (\<lambda>c. c \<noteq> sep) s)) # rest"
proof (induction s)
  case Nil
  then show ?case by simp
next
  case (Cons c cs)
  show ?case
  proof (cases "c = sep")
    case True
    have "\<exists>rest. py_split sep cs = takeWhile (\<lambda>c. c \<noteq> sep) cs # rest"
      by (rule py_split_head)
    with True show ?thesis by auto
  next
    case False
    with Cons show ?thesis by (auto split: list.splits)
  qed
qed

lemma recipient_invalid_True:
  assumes "64 \<notin> set to \<or> 46 \<notin> set (text_after_at to)"
  shows "recipient_invalid to = Inr True"
proof (cases "64 \<in> set to")
  case False
  then show ?thesis by (simp add: recipient_invalid_def)
next
  case True
  with assms have nodot: "46 \<notin> set (text_after_at to)" by simp
  from py_split_second [OF True] obtain rest where
    sp: "py_split 64 to =
           takeWhile (\<lambda>c. c \<noteq> 64) to # takeWhile (\<lambda>c. c \<noteq> 64) (text_after_at to) # rest"
    by (auto simp: text_after_at_def)
  have "46 \<notin> set (takeWhile (\<lambda>c. c \<noteq> 64) (text_after_at to))"
    using nodot set_takeWhileD by fastforce
  with True sp show ?thesis by (simp add: recipient_invalid_def)
qed

lemma recipient_invalid_total: "\<exists>b. recipient_invalid to = Inr b"
proof (cases "64 \<in> set to")
  case False
  then have "recipient_invalid to = Inr True" by (simp add: recipient_invalid_def)
  then show ?thesis by blast
next
  case True
  from py_split_second [OF True] show ?thesis
    by (auto simp: recipient_invalid_def True)
qed

text \<open>
  Claim C6: a recipient without \<^verbatim>\<open>@\<close>, or whose text after \<^verbatim>\<open>@\<close> has no dot, makes
  \<^verbatim>\<open>mail_send\<close> return the failure tagged \<^verbatim>\<open>INVALID_EMAIL_FORMAT\<close> at once: the state is
  the one it was called in, so no call has gone to the protocol layer, nothing was
  slept and the retry loop was not entered.
\<close>

theorem mail_send_invalid_recipient:
  "64 \<notin> set to \<or> 46 \<notin> set (text_after_at to) \<Longrightarrow>
   mail_send L S to subject body w = (Returns (Send_failed invalid_email_format None), w) \<and>
   starts_with (ascii ''INVALID_EMAIL_FORMAT'') invalid_email_format"
  by (simp add: mail_send_def recipient_invalid_True invalid_email_format_def ascii_simps)

theorem mail_send_invalid_recipient_witness:
  "mail_send ascii_lib server_down (ascii ''not-an-email'') (ascii ''s'') (ascii ''b'') tool0 =
     (Returns (Send_failed invalid_email_format None), tool0) \<and>
   mail_send ascii_lib server_down (ascii ''a@b'') (ascii ''s'') (ascii ''b'') tool0 =
     (Returns (Send_failed invalid_email_format None), tool0)"
  using mail_send_invalid_recipient [of "ascii ''not-an-email''" ascii_lib server_down
      "ascii ''s''" "ascii ''b''" tool0]
    mail_send_invalid_recipient [of "ascii ''a@b''" ascii_lib server_down
      "ascii ''s''" "ascii ''b''" tool0]
  by (simp add: ascii_simps text_after_at_def)

text \<open>
  Claim C10: on a header that holds no encoded word, \<^verbatim>\<open>decode_mime_words\<close> returns the
  header unchanged, and logs nothing.
\<close>

theorem decode_mime_words_plain:
  "\<not> ecre_search L s \<Longrightarrow> decode_mime_words L s = (s, [])"
  by (simp add: decode_mime_words_def decode_header_def)

theorem decode_mime_words_plain_witness:
  "\<not> ecre_search ascii_lib (ascii ''Hello'') \<and>
   decode_mime_words ascii_lib (ascii ''Hello'') = (ascii ''Hello'', [])"
  using decode_mime_words_plain [of ascii_lib "ascii ''Hello''"]
  by (simp add: ascii_lib_def ascii_simps)

lemma full_walk_agrees:
  "summary_walk L ps = Inr raw \<Longrightarrow> raw \<noteq> [] \<Longrightarrow> full_walk L ps b = Inr raw' \<Longrightarrow> raw' = raw"
  by (induction ps arbitrary: b) (auto split: if_splits sum.splits)

lemma full_body_agrees:
  "summary_body L m = Inr raw \<Longrightarrow> raw \<noteq> [] \<Longrightarrow> full_body L m = Inr raw' \<Longrightarrow> raw' = raw"
  by (auto simp: summary_body_def full_body_def split: if_splits dest: full_walk_agrees)

lemma clean_body_length: "length (clean_body b) = length (py_strip b)"
  by (simp add: clean_body_def py_replace_def)

lemma py_slice_to_take:
  "0 \<le> k \<Longrightarrow> int (length xs) > k \<Longrightarrow> py_slice_to k xs = take (nat k) xs"
  by (simp add: py_slice_to_def Let_def)

lemma py_strip_replicate_a: "py_strip (replicate n 97) = replicate n 97"
proof -
  have "dropWhile py_isspace (replicate n 97) = replicate n 97"
    by (cases n) (simp_all add: py_isspace_def)
  then show ?thesis by (simp add: py_strip_def)
qed

lemma clean_body_replicate_a: "clean_body (replicate n 97) = replicate n 97"
  by (simp add: clean_body_def py_strip_replicate_a py_replace_def map_replicate_const)

lemma decode_ignore_ascii_lib_a:
  "enc = ascii ''utf-8'' \<Longrightarrow>
   decode_ignore ascii_lib enc (replicate n (CHR ''a'')) = Inr (replicate n 97)"
  by (simp add: ascii_lib_def map_replicate_const)

lemma summary_body_html_then_plain:
  "summary_body ascii_lib html_then_plain = Inr (replicate 201 97)"
  by (simp add: summary_body_def html_then_plain_def decode_part_def str_or_def
      decode_ignore_ascii_lib_a ascii_simps)

lemma extract_full_body_html_then_plain:
  "extract_full_body ascii_lib html_then_plain =
     (parse_failed, [Log_warning Full_body_warning (exn_str (unknown_encoding (ascii ''x-unknown'')))])"
  by (simp add: extract_full_body_def full_body_def html_then_plain_def decode_part_def str_or_def
      ascii_lib_def ascii_simps)

text \<open>
  Claim C4 does not hold of the summary path: \<^verbatim>\<open>extract_body_summary\<close> looks for a
  \<^verbatim>\<open>text/plain\<close> part only, so on a multipart message with an HTML part only it returns
  the placeholder for an empty body, with any library; \<^verbatim>\<open>extract_full_body\<close> returns the
  HTML text without its tags.
\<close>

theorem summary_has_no_html_fallback:
  "extract_body_summary L html_only 200 = (no_content, []) \<and>
   extract_full_body ascii_lib html_only = (ascii ''Hi'', [])"
proof
  show "extract_body_summary L html_only 200 = (no_content, [])"
    by (simp add: extract_body_summary_def summary_body_def html_only_def ascii_simps
        clean_body_def py_strip_def py_replace_def)
  show "extract_full_body ascii_lib html_only = (ascii ''Hi'', [])"
    by (simp add: extract_full_body_def full_body_def html_only_def ascii_simps ascii_lib_def
        decode_part_def str_or_def py_strip_def py_isspace_def)
qed

text \<open>
  Where the two paths agree: when the summary path extracts a body whose cleaned text is
  longer than 200 characters, it returns the first 200 characters of that text followed
  by \<^verbatim>\<open>...\<close>, and if the full-body path extracts a body too, it returns the whole
  stripped body. A cleaned text of 1 to 200 characters is returned by the summary path as
  it is.
\<close>

lemma summary_truncation:
  assumes "summary_body L m = Inr raw"
  shows "(200 < length (clean_body raw) \<longrightarrow>
            fst (extract_body_summary L m 200) = take 200 (clean_body raw) @ ascii ''...'' \<and>
            (\<forall>raw'. full_body L m = Inr raw' \<longrightarrow>
               fst (extract_full_body L m) = py_strip raw \<and>
               py_replace 13 32 (py_replace 10 32 (fst (extract_full_body L m))) = clean_body raw)) \<and>
         (clean_body raw \<noteq> [] \<and> length (clean_body raw) \<le> 200 \<longrightarrow>
            fst (extract_body_summary L m 200) = clean_body raw)"
proof (intro conjI impI allI)
  assume long: "200 < length (clean_body raw)"
  then show "fst (extract_body_summary L m 200) = take 200 (clean_body raw) @ ascii ''...''"
    using assms by (simp add: extract_body_summary_def Let_def py_slice_to_take ascii_simps)
next
  fix raw'
  assume long: "200 < length (clean_body raw)" and full: "full_body L m = Inr raw'"
  from long have ne: "py_strip raw \<noteq> []" by (auto simp: clean_body_length)
  then have "raw \<noteq> []" by (auto simp: py_strip_def)
  with assms full have eq: "raw' = raw" by (auto dest: full_body_agrees)
  with full ne show "fst (extract_full_body L m) = py_strip raw"
    by (simp add: extract_full_body_def)
  then show "py_replace 13 32 (py_replace 10 32 (fst (extract_full_body L m))) = clean_body raw"
    by (simp add: clean_body_def)
next
  assume "clean_body raw \<noteq> [] \<and> length (clean_body raw) \<le> 200"
  then show "fst (extract_body_summary L m 200) = clean_body raw"
    using assms by (simp add: extract_body_summary_def Let_def)
qed

lemma summary_truncation_example:
  "fst (extract_body_summary ascii_lib (Leaf (ascii ''text/plain'') None (replicate 201 (CHR ''a''))) 200) =
     replicate 200 97 @ ascii ''...'' \<and>
   fst (extract_full_body ascii_lib (Leaf (ascii ''text/plain'') None (replicate 201 (CHR ''a'')))) =
     replicate 201 97 \<and>
   fst (extract_body_summary ascii_lib (Leaf (ascii ''text/plain'') None (replicate 3 (CHR ''a''))) 200) =
     replicate 3 97"
proof -
  let ?m = "\<lambda>n. Leaf (ascii ''text/plain'') None (replicate n (CHR ''a''))"
  have s: "summary_body ascii_lib (?m n) = Inr (replicate n 97)" for n
    by (simp add: summary_body_def decode_part_def str_or_def decode_ignore_ascii_lib_a)
  have f: "full_body ascii_lib (?m n) = Inr (replicate n 97)" for n
    by (simp add: full_body_def decode_part_def str_or_def decode_ignore_ascii_lib_a)
  show ?thesis
    using summary_truncation [OF s [of 201]]
      summary_truncation [OF s [of 3]] f [of 201]
    by (simp add: clean_body_replicate_a py_strip_replicate_a)
qed

lemma strip_tags_replicate_a: "strip_tags (replicate n 97) = replicate n 97"
  by (induction n) simp_all

lemma extract_html_only_long:
  "extract_body_summary L html_only_long 200 = (no_content, [])"
  "extract_full_body ascii_lib html_only_long = (replicate 201 97, [])"
proof -
  show "extract_body_summary L html_only_long 200 = (no_content, [])"
    by (simp add: extract_body_summary_def summary_body_def html_only_long_def ascii_simps
        clean_body_def py_strip_def py_replace_def)
  have "full_body ascii_lib html_only_long = Inr (replicate 201 97)"
    by (simp add: full_body_def html_only_long_def decode_part_def str_or_def
        decode_ignore_ascii_lib_a strip_tags_replicate_a ascii_simps)
  then show "extract_full_body ascii_lib html_only_long = (replicate 201 97, [])"
    by (simp add: extract_full_body_def py_strip_replicate_a)
qed

text \<open>
  Claim C8 does not hold of the code, on either reading of the extracted body. On
  \<open>html_then_plain\<close> the summary path finds the plain part of 201 characters and
  truncates it, while the full-body path meets the HTML part first, cannot decode it and
  returns the placeholder for a parse failure instead of the untruncated text, although
  a plain part follows. On \<open>html_only_long\<close> the full-body path returns the 201
  characters of the HTML part, while the summary path, which has no HTML branch, returns
  the placeholder for an empty body instead of the first 200 characters and \<^verbatim>\<open>...\<close>.
\<close>

theorem summary_and_full_body_disagree:
  "fst (extract_body_summary ascii_lib html_then_plain 200) = replicate 200 97 @ ascii ''...'' \<and>
   fst (extract_full_body ascii_lib html_then_plain) = parse_failed \<and>
   fst (extract_full_body ascii_lib html_then_plain) \<noteq> replicate 201 97 \<and>
   fst (extract_full_body ascii_lib html_only_long) = replicate 201 97 \<and>
   fst (extract_body_summary ascii_lib html_only_long 200) = no_content \<and>
   fst (extract_body_summary ascii_lib html_only_long 200) \<noteq> replicate 200 97 @ ascii ''...''"
proof -
  have 1: "parse_failed \<noteq> replicate 201 97"
  proof
    assume "parse_failed = replicate 201 97"
    from arg_cong [OF this, of length] show False
      by (simp add: parse_failed_def)
  qed
  have 2: "no_content \<noteq> replicate 200 97 @ ascii ''...''"
  proof
    assume "no_content = replicate 200 97 @ ascii ''...''"
    from arg_cong [OF this, of length] show False
      by (simp add: no_content_def ascii_simps)
  qed
  have 3: "fst (extract_body_summary ascii_lib html_then_plain 200) =
      replicate 200 97 @ ascii ''...''"
    by (simp add: summary_body_html_then_plain clean_body_replicate_a extract_body_summary_def
        py_slice_to_def)
  show ?thesis
    using 1 2 by (simp add: 3 extract_full_body_html_then_plain extract_html_only_long)
qed

text \<open>
  Claim C9: both extraction functions always return a text, never the empty one. When
  a decoding step raises, the result is the placeholder for a parse failure and one
  warning is logged; when the extracted body is empty after cleaning, the result is the
  placeholder for an empty body.
\<close>

theorem body_extraction_placeholders:
  "(\<forall>e. summary_body L m = Inl e \<longrightarrow>
      extract_body_summary L m 200 = (parse_failed, [Log_warning Summary_warning (exn_str e)])) \<and>
   (\<forall>b. summary_body L m = Inr b \<and> clean_body b = [] \<longrightarrow>
      extract_body_summary L m 200 = (no_content, [])) \<and>
   (\<forall>e. full_body L m = Inl e \<longrightarrow>
      extract_full_body L m = (parse_failed, [Log_warning Full_body_warning (exn_str e)])) \<and>
   (\<forall>b. full_body L m = Inr b \<and> py_strip b = [] \<longrightarrow>
      extract_full_body L m = (no_content, [])) \<and>
   fst (extract_body_summary L m 200) \<noteq> [] \<and> fst (extract_full_body L m) \<noteq> [] \<and>
   no_content \<noteq> [] \<and> parse_failed \<noteq> []"
  by (auto simp: extract_body_summary_def extract_full_body_def Let_def parse_failed_def
      no_content_def ascii_simps split: sum.splits)

theorem body_extraction_placeholders_witness:
  "extract_body_summary ascii_lib (Leaf (ascii ''text/plain'') (Some (ascii ''x-unknown'')) ''Hi'') 200 =
     (parse_failed, [Log_warning Summary_warning (exn_str (unknown_encoding (ascii ''x-unknown'')))]) \<and>
   extract_full_body ascii_lib (Leaf (ascii ''text/plain'') (Some (ascii ''x-unknown'')) ''Hi'') =
     (parse_failed, [Log_warning Full_body_warning (exn_str (unknown_encoding (ascii ''x-unknown'')))]) \<and>
   extract_body_summary ascii_lib (Leaf (ascii ''text/plain'') None [CHR 0x0A]) 200 = (no_content, []) \<and>
   extract_full_body ascii_lib (Leaf (ascii ''text/plain'') None [CHR 0x0A]) = (no_content, [])"
proof -
  let ?bad = "Leaf (ascii ''text/plain'') (Some (ascii ''x-unknown'')) ''Hi''"
  let ?empty = "Leaf (ascii ''text/plain'') None [CHR 0x0A]"
  have 1: "summary_body ascii_lib ?bad = Inl (unknown_encoding (ascii ''x-unknown''))"
    by (simp add: summary_body_def decode_part_def str_or_def ascii_lib_def ascii_simps)
  have 2: "full_body ascii_lib ?bad = Inl (unknown_encoding (ascii ''x-unknown''))"
    by (simp add: full_body_def decode_part_def str_or_def ascii_lib_def ascii_simps)
  have 3: "summary_body ascii_lib ?empty = Inr [10]"
    by (simp add: summary_body_def decode_part_def str_or_def ascii_lib_def ascii_simps)
  have 4: "full_body ascii_lib ?empty = Inr [10]"
    by (simp add: full_body_def decode_part_def str_or_def ascii_lib_def ascii_simps)
  have 5: "py_strip [10] = []" "clean_body [10] = []"
    by (simp_all add: clean_body_def py_strip_def py_isspace_def py_replace_def)
  show ?thesis
    using body_extraction_placeholders [of ascii_lib ?bad]
      body_extraction_placeholders [of ascii_lib ?empty] 1 2 3 4 5
    by simp
qed

section \<open>Traces of the operations\<close>

lemma emit_fields [simp]:
  "trace (emit es w) = trace w @ es"
  "imap_conn (emit es w) = imap_conn w"
  "smtp_conn (emit es w) = smtp_conn w"
  "clock (emit es w) = clock w"
  "next_handle (emit es w) = next_handle w"
  "config (emit es w) = config w"
  by (simp_all add: emit_def)

lemma tick_fields [simp]:
  "trace (tick w) = trace w"
  "imap_conn (tick w) = imap_conn w"
  "smtp_conn (tick w) = smtp_conn w"
  "clock (tick w) = Suc (clock w)"
  "next_handle (tick w) = next_handle w"
  "config (tick w) = config w"
  by (simp_all add: tick_def)

lemma reset_imap_fields [simp]:
  "trace (reset_imap w) = trace w"
  "imap_conn (reset_imap w) = None"
  "smtp_conn (reset_imap w) = smtp_conn w"
  "clock (reset_imap w) = clock w"
  "next_handle (reset_imap w) = next_handle w"
  "config (reset_imap w) = config w"
  by (simp_all add: reset_imap_def)

lemma reset_smtp_fields [simp]:
  "trace (reset_smtp w) = trace w"
  "imap_conn (reset_smtp w) = imap_conn w"
  "smtp_conn (reset_smtp w) = None"
  "clock (reset_smtp w) = clock w"
  "next_handle (reset_smtp w) = next_handle w"
  "config (reset_smtp w) = config w"
  by (simp_all add: reset_smtp_def)

lemma sleeps_append [simp]: "sleeps (xs @ ys) = sleeps xs @ sleeps ys"
  by (induction xs rule: sleeps.induct) simp_all

lemma attempts_append [simp]: "attempts (xs @ ys) = attempts xs @ attempts ys"
  by (induction xs rule: attempts.induct) simp_all

lemma failures_append [simp]: "failures (xs @ ys) = failures xs @ failures ys"
  by (induction xs rule: failures.induct) simp_all

lemma quiet_projections:
  "list_all (\<lambda>e. \<not> loop_event e) es \<Longrightarrow> sleeps es = [] \<and> attempts es = [] \<and> failures es = []"
proof (induction es)
  case Nil
  then show ?case by simp
next
  case (Cons e es)
  then show ?case by (cases e) simp_all
qed

lemma session_event_quiet: "session_event e \<Longrightarrow> \<not> loop_event e"
  by (cases e) simp_all

lemma adds_refl [simp]: "adds P w w"
  by (simp add: adds_def)

lemma adds_trans: "adds P w w1 \<Longrightarrow> adds P w1 w2 \<Longrightarrow> adds P w w2"
  by (auto simp: adds_def)

lemma adds_mono: "adds P w w' \<Longrightarrow> (\<And>e. P e \<Longrightarrow> Q e) \<Longrightarrow> adds Q w w'"
  by (auto simp: adds_def list_all_iff)

lemma adds_emit [simp]: "adds P w (emit es w1) \<longleftrightarrow> adds P w w1 \<and> list_all P es" if "adds P w w1"
  using that by (auto simp: adds_def)

lemma adds_emitI: "adds P w w1 \<Longrightarrow> list_all P es \<Longrightarrow> adds P w (emit es w1)"
  by (auto simp: adds_def)

lemma adds_tick [simp]: "adds P w (tick w1) \<longleftrightarrow> adds P w w1"
  by (simp add: adds_def)

lemma adds_from_tick [simp]: "adds P (tick w) w1 \<longleftrightarrow> adds P w w1"
  by (simp add: adds_def)

lemma adds_from_emit: "adds P (emit es w) w1 \<Longrightarrow> list_all P es \<Longrightarrow> adds P w w1"
  by (auto simp: adds_def)

lemma decode_mime_words_events:
  "decode_mime_words L s = (t, es) \<Longrightarrow> list_all session_event es"
  by (auto simp: decode_mime_words_def split: sum.splits)

lemma extract_body_summary_events:
  "extract_body_summary L m k = (t, es) \<Longrightarrow> list_all session_event es"
  by (auto simp: extract_body_summary_def Let_def split: sum.splits)

lemma extract_full_body_events:
  "extract_full_body L m = (t, es) \<Longrightarrow> list_all session_event es"
  by (auto simp: extract_full_body_def split: sum.splits)

lemma session_events_imp:
  "list_all session_event es \<Longrightarrow> (\<And>e. session_event e \<Longrightarrow> P e) \<Longrightarrow> list_all P es"
  by (auto simp: list_all_iff)

lemma fetch_messages_adds:
  assumes P: "\<And>e. session_event e \<Longrightarrow> P e"
  shows "adds P w0 w \<Longrightarrow> adds P w0 (snd (fetch_messages L S h ids emails w))"
proof (induction ids arbitrary: emails w)
  case Nil
  then show ?case by simp
next
  case (Cons msg_id ids)
  from Cons.prems show ?case
    by (auto simp: Let_def P split: sum.splits prod.splits
        intro!: Cons.IH adds_emitI session_events_imp [where P = P]
        dest: decode_mime_words_events extract_body_summary_events)
qed

lemma read_session_adds:
  assumes P: "\<And>e. session_event e \<Longrightarrow> P e" and w: "adds P w0 w"
  shows "adds P w0 (snd (read_session L S folder limit h w))"
  using w
  by (auto simp: read_session_def Let_def P case_prod_beta split: sum.splits
      intro!: fetch_messages_adds adds_emitI)

lemma get_session_adds:
  assumes P: "\<And>e. session_event e \<Longrightarrow> P e" and w: "adds P w0 w"
  shows "adds P w0 (snd (get_session L S email_id h w))"
  using w
  by (auto simp: get_session_def Let_def P split: sum.splits prod.splits
      intro!: adds_emitI session_events_imp [where P = P]
      dest: decode_mime_words_events extract_full_body_events)

lemma send_session_adds:
  assumes P: "\<And>e. session_event e \<Longrightarrow> P e" and w: "adds P w0 w"
  shows "adds P w0 (snd (send_session L S to subject body h w))"
  using w
  by (auto simp: send_session_def Let_def P split: sum.splits option.splits
      intro!: adds_emitI)

lemma adds_imap_conn_update [simp]: "adds P w (w1\<lparr>imap_conn := x\<rparr>) \<longleftrightarrow> adds P w w1"
  by (simp add: adds_def)

lemma adds_smtp_conn_update [simp]: "adds P w (w1\<lparr>smtp_conn := x\<rparr>) \<longleftrightarrow> adds P w w1"
  by (simp add: adds_def)

lemma adds_next_handle_update [simp]: "adds P w (w1\<lparr>next_handle := x\<rparr>) \<longleftrightarrow> adds P w w1"
  by (simp add: adds_def)

lemma connect_imap_quiet:
  "adds (\<lambda>e. \<not> loop_event e) w0 w \<Longrightarrow> adds (\<lambda>e. \<not> loop_event e) w0 (snd (connect_imap S w))"
  by (auto simp: connect_imap_def Let_def split: option.splits intro!: adds_emitI)

lemma connect_smtp_quiet:
  "adds (\<lambda>e. \<not> loop_event e) w0 w \<Longrightarrow> adds (\<lambda>e. \<not> loop_event e) w0 (snd (connect_smtp S w))"
  by (auto simp: connect_smtp_def Let_def split: option.splits intro!: adds_emitI)

lemma read_attempt_quiet:
  "adds (\<lambda>e. \<not> loop_event e) w0 w \<Longrightarrow>
   adds (\<lambda>e. \<not> loop_event e) w0 (snd (read_attempt L S folder limit w))"
  using connect_imap_quiet [of w0 w S]
  by (auto simp: read_attempt_def session_event_quiet split: option.splits sum.splits prod.splits
      intro!: read_session_adds)

lemma get_attempt_quiet:
  "adds (\<lambda>e. \<not> loop_event e) w0 w \<Longrightarrow>
   adds (\<lambda>e. \<not> loop_event e) w0 (snd (get_attempt L S email_id w))"
  using connect_imap_quiet [of w0 w S]
  by (auto simp: get_attempt_def session_event_quiet split: option.splits sum.splits prod.splits
      intro!: get_session_adds)

lemma send_attempt_quiet:
  "adds (\<lambda>e. \<not> loop_event e) w0 w \<Longrightarrow>
   adds (\<lambda>e. \<not> loop_event e) w0 (snd (send_attempt L S to subject body w))"
  using connect_smtp_quiet [of w0 w S]
  by (auto simp: send_attempt_def session_event_quiet split: option.splits sum.splits prod.splits
      intro!: send_session_adds)

section \<open>Properties of the retry loop\<close>

lemma retry_loop_run:
  assumes body: "\<And>w. adds (\<lambda>e. \<not> loop_event e) w (snd (body w))"
      and reset: "\<And>w. trace (reset w) = trace w"
      and rd: "0 \<le> rd"
  shows "a < rc \<Longrightarrow>
    \<exists>es. trace (snd (retry_loop body reset opn rc rd a w)) = trace w @ es \<and>
      (case fst (retry_loop body reset opn rc rd a w) of
         Gave_up e \<Rightarrow>
           attempts es = [a..rc - 1] \<and> sleeps es = replicate (nat (rc - 1 - a)) rd \<and>
           length (failures es) = nat (rc - a) \<and> last (failures es) = exn_str e
       | Done r \<Rightarrow>
           (\<exists>k. a \<le> k \<and> k < rc \<and> attempts es = [a..k] \<and>
                sleeps es = replicate (nat (k - a)) rd \<and> length (failures es) = nat (k - a))
       | _ \<Rightarrow> False)"
proof (induction "nat (rc - a)" arbitrary: a w)
  case 0
  then show ?case by simp
next
  case (Suc n)
  let ?w0 = "emit [Attempt_begin opn a] w"
  obtain res w1 where b: "body ?w0 = (res, w1)" by (cases "body ?w0")
  from body [of ?w0] b obtain es1 where
    es1: "trace w1 = trace w @ [Attempt_begin opn a] @ es1" "list_all (\<lambda>e. \<not> loop_event e) es1"
    by (auto simp: adds_def)
  note q = quiet_projections [OF es1(2)]
  show ?case
  proof (cases res)
    case (Inr r)
    with b Suc.prems es1 q show ?thesis
      by (subst (1 2) retry_loop.simps) (auto intro!: exI [of _ a])
  next
    case (Inl e)
    let ?w2 = "emit [Log_error opn (a + 1) rc (exn_str e)] w1"
    show ?thesis
    proof (cases "a < rc - 1")
      case False
      with Suc.prems have "a = rc - 1" by simp
      with b Inl Suc.prems es1 q show ?thesis
        by (subst (1 2) retry_loop.simps) auto
    next
      case True
      let ?w3 = "reset (emit [Sleep rd] ?w2)"
      from rd have nn: "\<not> rd < 0" by simp
      have IH: "\<exists>es. trace (snd (retry_loop body reset opn rc rd (a + 1) ?w3)) = trace ?w3 @ es \<and>
        (case fst (retry_loop body reset opn rc rd (a + 1) ?w3) of
           Gave_up e \<Rightarrow>
             attempts es = [a + 1..rc - 1] \<and> sleeps es = replicate (nat (rc - 1 - (a + 1))) rd \<and>
             length (failures es) = nat (rc - (a + 1)) \<and> last (failures es) = exn_str e
         | Done r \<Rightarrow>
             (\<exists>k. a + 1 \<le> k \<and> k < rc \<and> attempts es = [a + 1..k] \<and>
                  sleeps es = replicate (nat (k - (a + 1))) rd \<and>
                  length (failures es) = nat (k - (a + 1)))
         | _ \<Rightarrow> False)"
        using Suc.hyps(2) True by (intro Suc.hyps(1)) auto
      then obtain es2 where
        t2: "trace (snd (retry_loop body reset opn rc rd (a + 1) ?w3)) = trace ?w3 @ es2" and
        c2: "(case fst (retry_loop body reset opn rc rd (a + 1) ?w3) of
           Gave_up e \<Rightarrow>
             attempts es2 = [a + 1..rc - 1] \<and> sleeps es2 = replicate (nat (rc - 1 - (a + 1))) rd \<and>
             length (failures es2) = nat (rc - (a + 1)) \<and> last (failures es2) = exn_str e
         | Done r \<Rightarrow>
             (\<exists>k. a + 1 \<le> k \<and> k < rc \<and> attempts es2 = [a + 1..k] \<and>
                  sleeps es2 = replicate (nat (k - (a + 1))) rd \<and>
                  length (failures es2) = nat (k - (a + 1)))
         | _ \<Rightarrow> False)"
        by blast
      have unfold: "retry_loop body reset opn rc rd a w = retry_loop body reset opn rc rd (a + 1) ?w3"
        using b Inl True Suc.prems nn by (subst retry_loop.simps) simp
      have tr: "trace ?w3 = trace w @ [Attempt_begin opn a] @ es1 @
                  [Log_error opn (a + 1) rc (exn_str e), Sleep rd]"
        using es1 reset by simp
      let ?es = "[Attempt_begin opn a] @ es1 @ [Log_error opn (a + 1) rc (exn_str e), Sleep rd] @ es2"
      have "trace (snd (retry_loop body reset opn rc rd a w)) = trace w @ ?es"
        using unfold t2 tr by simp
      moreover have "(case fst (retry_loop body reset opn rc rd a w) of
         Gave_up e \<Rightarrow>
           attempts ?es = [a..rc - 1] \<and> sleeps ?es = replicate (nat (rc - 1 - a)) rd \<and>
           length (failures ?es) = nat (rc - a) \<and> last (failures ?es) = exn_str e
       | Done r \<Rightarrow>
           (\<exists>k. a \<le> k \<and> k < rc \<and> attempts ?es = [a..k] \<and>
                sleeps ?es = replicate (nat (k - a)) rd \<and> length (failures ?es) = nat (k - a))
       | _ \<Rightarrow> False)"
      proof (cases "fst (retry_loop body reset opn rc rd (a + 1) ?w3)")
        case (Gave_up e')
        with c2 have g: "attempts es2 = [a + 1..rc - 1]"
          "sleeps es2 = replicate (nat (rc - 1 - (a + 1))) rd"
          "length (failures es2) = nat (rc - (a + 1))" "last (failures es2) = exn_str e'"
          by simp_all
        from g(3) True have ne: "failures es2 \<noteq> []" by auto
        have r: "Suc (nat (rc - 1 - (a + 1))) = nat (rc - 1 - a)" "Suc (nat (rc - (a + 1))) = nat (rc - a)"
          using True by simp_all
        have u: "[a..rc - 1] = a # [a + 1..rc - 1]"
          using True by (simp add: upto_rec1)
        show ?thesis
          using Gave_up g q ne r u
          by (simp add: unfold replicate_Suc [symmetric] del: replicate_Suc)
      next
        case (Done r')
        with c2 obtain k where k: "a + 1 \<le> k" "k < rc" "attempts es2 = [a + 1..k]"
          "sleeps es2 = replicate (nat (k - (a + 1))) rd"
          "length (failures es2) = nat (k - (a + 1))"
          by auto
        have r: "Suc (nat (k - (a + 1))) = nat (k - a)"
          using k by simp
        have u: "[a..k] = a # [a + 1..k]"
          using k by (simp add: upto_rec1)
        have "a \<le> k \<and> k < rc \<and> attempts ?es = [a..k] \<and>
                sleeps ?es = replicate (nat (k - a)) rd \<and> length (failures ?es) = nat (k - a)"
          using k q r u by (simp add: replicate_Suc [symmetric] del: replicate_Suc)
        then show ?thesis
          using Done by (simp add: unfold del: replicate_Suc) blast
      next
        case (Escaped x)
        with c2 show ?thesis by simp
      next
        case Fell_through
        with c2 show ?thesis by simp
      qed
      ultimately show ?thesis by blast
    qed
  qed
qed


lemma retry_loop_retry_run:
  assumes body: "\<And>w. adds (\<lambda>e. \<not> loop_event e) w (snd (body w))"
      and reset: "\<And>w. trace (reset w) = trace w"
      and rd: "0 \<le> rd" and rc: "1 \<le> rc"
  shows "case fst (retry_loop body reset opn rc rd 0 w) of
           Gave_up e \<Rightarrow>
             retry_run rc rd (events_since w (snd (retry_loop body reset opn rc rd 0 w)))
               (Failed (exn_str e))
         | Done r \<Rightarrow>
             retry_run rc rd (events_since w (snd (retry_loop body reset opn rc rd 0 w))) Succeeded
         | _ \<Rightarrow> False"
proof -
  from rc have "0 < rc" by simp
  from retry_loop_run [OF body reset rd this, of opn w] obtain es where
    t: "trace (snd (retry_loop body reset opn rc rd 0 w)) = trace w @ es" and
    c: "(case fst (retry_loop body reset opn rc rd 0 w) of
         Gave_up e \<Rightarrow>
           attempts es = [0..rc - 1] \<and> sleeps es = replicate (nat (rc - 1 - 0)) rd \<and>
           length (failures es) = nat (rc - 0) \<and> last (failures es) = exn_str e
       | Done r \<Rightarrow>
           (\<exists>k. 0 \<le> k \<and> k < rc \<and> attempts es = [0..k] \<and>
                sleeps es = replicate (nat (k - 0)) rd \<and> length (failures es) = nat (k - 0))
       | _ \<Rightarrow> False)"
    by blast
  from t have ev: "events_since w (snd (retry_loop body reset opn rc rd 0 w)) = es"
    by (simp add: events_since_def)
  show ?thesis
  proof (cases "fst (retry_loop body reset opn rc rd 0 w)")
    case (Gave_up e)
    with c rc show ?thesis
      by (simp add: ev retry_run_def)
  next
    case (Done r)
    with c obtain k where k: "0 \<le> k" "k < rc" "attempts es = [0..k]"
      "sleeps es = replicate (nat k) rd" "length (failures es) = nat k"
      by auto
    have "retry_run rc rd es Succeeded"
      unfolding retry_run_def using k by auto
    with Done show ?thesis by (simp add: ev)
  next
    case (Escaped x)
    with c show ?thesis by simp
  next
    case Fell_through
    with c show ?thesis by simp
  qed
qed


lemma emit_Nil [simp]: "emit [] w = w"
  by (simp add: emit_def)

lemma decode_mime_words_ascii_lib:
  "\<not> py_contains (ascii ''=?'') s \<Longrightarrow> decode_mime_words ascii_lib s = (s, [])"
  by (simp add: decode_mime_words_def decode_header_def ascii_lib_def)

lemma extract_plain_mail:
  "extract_body_summary ascii_lib (content plain_mail) 200 = (ascii ''Hi there'', [])"
  "extract_full_body ascii_lib (content plain_mail) = (ascii ''Hi there'', [])"
  by (simp_all add: extract_body_summary_def extract_full_body_def summary_body_def full_body_def
      plain_mail_def decode_part_def str_or_def ascii_lib_def ascii_simps clean_body_def
      py_strip_def py_isspace_def py_replace_def)



lemma connect_errors [simp]:
  "imap_connect_error timed_out = network_error"
  "smtp_connect_error timed_out = network_error"
  by (simp_all add: imap_connect_error_def smtp_connect_error_def timed_out_def network_error_def)



lemma tool0_fields [simp]:
  "trace tool0 = []" "imap_conn tool0 = None" "smtp_conn tool0 = None" "clock tool0 = 0"
  "next_handle tool0 = 0" "get_retry_count (config tool0) = 3" "get_retry_delay (config tool0) = 2"
  by (simp_all add: tool0_def get_retry_count_def get_retry_delay_def)


lemma connect_down:
  "connect_imap server_down w = (Inl network_error, emit [Imap_open_failed] (tick w))"
  "connect_smtp server_down w = (Inl network_error, emit [Smtp_open_failed] (tick w))"
  by (simp_all add: connect_imap_def connect_smtp_def server_down_def)

lemma attempts_down:
  "imap_conn w = None \<Longrightarrow>
     read_attempt L server_down folder limit w = (Inl network_error, emit [Imap_open_failed] (tick w))"
  "imap_conn w = None \<Longrightarrow>
     get_attempt L server_down email_id w = (Inl network_error, emit [Imap_open_failed] (tick w))"
  "smtp_conn w = None \<Longrightarrow>
     send_attempt L server_down to subject body w =
       (Inl network_error, emit [Smtp_open_failed] (tick w))"
  by (simp_all add: read_attempt_def get_attempt_def send_attempt_def connect_down)





lemma recipient_valid_example: "recipient_invalid (ascii ''a@b.c'') = Inr False"
  by (simp add: recipient_invalid_def ascii_simps)




section \<open>Results of the operations\<close>

lemma retry_loop_no_iteration:
  "rc \<le> 0 \<Longrightarrow> retry_loop body reset opn rc rd 0 w = (Fell_through, w)"
  by (subst retry_loop.simps) simp

lemma tool_no_retries_config [simp]:
  "get_retry_count (config tool_no_retries) = 0"
  by (simp add: tool_no_retries_def get_retry_count_def)

lemma tool_negative_delay_fields [simp]:
  "get_retry_count (config tool_negative_delay) = 3"
  "get_retry_delay (config tool_negative_delay) = - 1"
  "imap_conn tool_negative_delay = None"
  by (simp_all add: tool_negative_delay_def tool0_def get_retry_count_def get_retry_delay_def)

text \<open>
  Claim C7 does not hold for every configuration. With \<^verbatim>\<open>retry_count\<close> 0 the loop body
  is never entered and each operation returns \<^verbatim>\<open>None\<close>, which is not a result, whatever
  the library and the server do. With a negative \<^verbatim>\<open>retry_delay\<close> the first failed attempt
  makes \<^verbatim>\<open>time.sleep\<close> raise inside the handler, and the exception leaves the operation.
\<close>

theorem operations_without_result:
  "mail_read L S folder limit tool_no_retries = (Returns_None, tool_no_retries) \<and>
   mail_send L S (ascii ''a@b.c'') subject body tool_no_retries = (Returns_None, tool_no_retries) \<and>
   mail_get L S email_id tool_no_retries = (Returns_None, tool_no_retries) \<and>
   fst (mail_read L server_down folder limit tool_negative_delay) =
     Raises (Exn Exception (ascii ''sleep length must be non-negative''))"
  by (simp add: mail_read_def mail_send_def mail_get_def retry_loop_no_iteration
      recipient_valid_example retry_loop.simps [of _ _ _ 3] attempts_down)

text \<open>
  With at least one attempt configured and a delay that is not negative, each operation
  returns a result dictionary.
\<close>

lemma operations_return_results:
  assumes "1 \<le> get_retry_count (config w)" and "0 \<le> get_retry_delay (config w)"
  shows "\<exists>r. fst (mail_read L S folder limit w) = Returns r"
    and "\<exists>r. fst (mail_send L S to subject body w) = Returns r"
    and "\<exists>r. fst (mail_get L S email_id w) = Returns r"
proof -
  let ?rc = "get_retry_count (config w)" and ?rd = "get_retry_delay (config w)"
  have "case fst (retry_loop (read_attempt L S folder limit) reset_imap Op_read ?rc ?rd 0 w) of
           Gave_up e \<Rightarrow>
             retry_run ?rc ?rd (events_since w (snd (retry_loop (read_attempt L S folder limit)
               reset_imap Op_read ?rc ?rd 0 w))) (Failed (exn_str e))
         | Done r \<Rightarrow>
             retry_run ?rc ?rd (events_since w (snd (retry_loop (read_attempt L S folder limit)
               reset_imap Op_read ?rc ?rd 0 w))) Succeeded
         | _ \<Rightarrow> False"
    using assms by (intro retry_loop_retry_run read_attempt_quiet) simp_all
  then show "\<exists>r. fst (mail_read L S folder limit w) = Returns r"
    by (auto simp: mail_read_def Let_def split: prod.splits loop_result.splits)
  have "case fst (retry_loop (send_attempt L S to subject body) reset_smtp Op_send ?rc ?rd 0 w) of
           Gave_up e \<Rightarrow>
             retry_run ?rc ?rd (events_since w (snd (retry_loop (send_attempt L S to subject body)
               reset_smtp Op_send ?rc ?rd 0 w))) (Failed (exn_str e))
         | Done r \<Rightarrow>
             retry_run ?rc ?rd (events_since w (snd (retry_loop (send_attempt L S to subject body)
               reset_smtp Op_send ?rc ?rd 0 w))) Succeeded
         | _ \<Rightarrow> False"
    using assms by (intro retry_loop_retry_run send_attempt_quiet) simp_all
  moreover obtain b where "recipient_invalid to = Inr b"
    using recipient_invalid_total by blast
  ultimately show "\<exists>r. fst (mail_send L S to subject body w) = Returns r"
    by (cases b) (auto simp: mail_send_def Let_def split: prod.splits loop_result.splits)
  have "case fst (retry_loop (get_attempt L S email_id) reset_imap Op_get ?rc ?rd 0 w) of
           Gave_up e \<Rightarrow>
             retry_run ?rc ?rd (events_since w (snd (retry_loop (get_attempt L S email_id)
               reset_imap Op_get ?rc ?rd 0 w))) (Failed (exn_str e))
         | Done r \<Rightarrow>
             retry_run ?rc ?rd (events_since w (snd (retry_loop (get_attempt L S email_id)
               reset_imap Op_get ?rc ?rd 0 w))) Succeeded
         | _ \<Rightarrow> False"
    using assms by (intro retry_loop_retry_run get_attempt_quiet) simp_all
  then show "\<exists>r. fst (mail_get L S email_id w) = Returns r"
    by (auto simp: mail_get_def Let_def split: prod.splits loop_result.splits)
qed

section \<open>The messages \<^verbatim>\<open>mail_read\<close> selects\<close>

lemma latest_ids_positive:
  "0 < limit \<Longrightarrow> latest_ids limit ids = rev (drop (length ids - nat limit) ids)"
  by (auto simp: latest_ids_def py_slice_from_def Let_def max_def nat_diff_distrib')

lemma latest_ids_positive_length:
  "0 < limit \<Longrightarrow> length (latest_ids limit ids) = min (nat limit) (length ids)"
  by (simp add: latest_ids_positive)

lemma latest_ids_zero: "latest_ids 0 ids = rev ids"
  by (simp add: latest_ids_def py_slice_from_def)

lemma fetch_messages_length:
  "length (fst (fetch_messages L S h ids emails w)) \<le> length emails + length ids"
proof (induction ids arbitrary: emails w)
  case Nil
  then show ?case by simp
next
  case (Cons msg_id ids)
  have a: "length (fst (fetch_messages L S h ids emails w')) \<le> Suc (length emails + length ids)"
    for w'
    using Cons.IH [of emails w'] by simp
  have b: "length (fst (fetch_messages L S h ids (emails @ [x]) w')) \<le>
      Suc (length emails + length ids)" for x w'
    using Cons.IH [of "emails @ [x]" w'] by simp
  show ?case
    by (auto simp: Let_def a b case_prod_beta split: sum.splits)
qed

lemma read_session_count:
  assumes "read_session L S folder limit h w = (Inr (emails, count), w')"
  shows "count = int (length emails)"
    and "0 < limit \<Longrightarrow> length emails \<le> nat limit"
proof -
  show "count = int (length emails)"
    using assms
    by (auto simp: read_session_def Let_def case_prod_beta split: sum.splits if_splits)
  assume "0 < limit"
  then have "length (fst (fetch_messages L S h (latest_ids limit ids) [] w0)) \<le> nat limit"
    for ids w0
    using fetch_messages_length [of L S h "latest_ids limit ids" "[]" w0]
    by (simp add: latest_ids_positive_length)
  then show "length emails \<le> nat limit"
    using assms
    by (auto simp: read_session_def Let_def case_prod_beta split: sum.splits if_splits)
qed

lemma fetch_messages_ok:
  "list_all (\<lambda>c. (of_char c :: nat) < 128) msg_id \<Longrightarrow>
   fetch_messages ascii_lib (server_ok ids) h (msg_id # rest) emails w =
     fetch_messages ascii_lib (server_ok ids) h rest
       (emails @ [plain_summary (map of_char msg_id)]) (emit [Imap_fetch h msg_id] (tick w))"
proof -
  assume a: "list_all (\<lambda>c. (of_char c :: nat) < 128) msg_id"
  have hdr: "decode_mime_words ascii_lib (str_or (hdr_subject plain_mail) no_subject) = (ascii ''Hello'', [])"
    "decode_mime_words ascii_lib (str_or (hdr_from plain_mail) unknown_sender) = (ascii ''a@example.com'', [])"
    "str_or (hdr_date plain_mail) unknown_time = ascii ''Mon, 1 Jan 2024''"
    by (simp_all add: plain_mail_def str_or_def decode_mime_words_ascii_lib ascii_simps)
  have dec: "decode_strict ascii_lib (ascii ''utf-8'') msg_id = Inr (map of_char msg_id)"
    using a by (simp add: ascii_lib_def)
  show ?thesis
    by (simp add: server_ok_def hdr dec extract_plain_mail plain_summary_def)
qed

text \<open>
  Claim C5 does not hold for the limit 0, where \<open>min(limit, n)\<close> is 0: the slice
  \<^verbatim>\<open>message_ids[-0:]\<close> is the whole list, so \<^verbatim>\<open>mail_read\<close> returns a summary of every
  message, newest first. On a mailbox of two messages it returns two summaries.
\<close>

theorem limit_zero_returns_all:
  "latest_ids 0 ids = rev ids \<and>
   fst (mail_read ascii_lib (server_ok [''1'', ''2'']) (ascii ''INBOX'') 0 tool0) =
     Returns (Read_ok [plain_summary (ascii ''2''), plain_summary (ascii ''1'')] 2)"
proof
  show "latest_ids 0 ids = rev ids" by (rule latest_ids_zero)
  have conn: "read_attempt ascii_lib (server_ok [''1'', ''2'']) (ascii ''INBOX'') 0 w =
      read_session ascii_lib (server_ok [''1'', ''2'']) (ascii ''INBOX'') 0 (next_handle w)
        (emit [Imap_login (next_handle w), Log_info Imap_connected]
           (tick ((emit [Imap_open (next_handle w)] (tick w))
              \<lparr>imap_conn := Some (next_handle w), next_handle := Suc (next_handle w)\<rparr>)))"
    if "imap_conn w = None" for w
    using that by (simp add: read_attempt_def connect_imap_def server_ok_def Let_def)
  have sess: "fst (read_session ascii_lib (server_ok [''1'', ''2'']) (ascii ''INBOX'') 0 h w) =
      Inr ([plain_summary (ascii ''2''), plain_summary (ascii ''1'')], 2)" for h w
  proof -
    have s: "imap_select_r (server_ok [''1'', ''2'']) i folder = Inr (ascii ''OK'')"
      "imap_search_r (server_ok [''1'', ''2'']) i = Inr (ascii ''OK'', Inr [''1'', ''2''])" for i folder
      by (simp_all add: server_ok_def)
    show ?thesis
      by (simp add: read_session_def s latest_ids_zero fetch_messages_ok ascii_simps
          case_prod_beta del: fetch_messages.simps(2))
  qed
  show "fst (mail_read ascii_lib (server_ok [''1'', ''2'']) (ascii ''INBOX'') 0 tool0) =
     Returns (Read_ok [plain_summary (ascii ''2''), plain_summary (ascii ''1'')] 2)"
    using sess
    by (simp add: mail_read_def retry_loop.simps [of _ _ _ 3] conn case_prod_beta
        split: sum.splits)
qed

section \<open>Closing the sessions\<close>

text \<open>
  What \<^verbatim>\<open>close_connections\<close> does in every case: it never raises, and an error of a
  closing step is logged as a warning, which is the last thing the call does. When no
  closing step raises, both session references are absent when it returns; when no
  session was ever opened, no closing step is made at all.
\<close>

lemma close_connections_behaviour:
  "fst (close_connections S w) = Returns_None \<and>
   (\<forall>e. fst (close_try S w) = Inl e \<longrightarrow>
      last (trace (snd (close_connections S w))) = Log_warning Close_warning (exn_str e)) \<and>
   ((\<exists>u. fst (close_try S w) = Inr u) \<longrightarrow>
      imap_conn (snd (close_connections S w)) = None \<and>
      smtp_conn (snd (close_connections S w)) = None) \<and>
   (imap_conn w = None \<and> smtp_conn w = None \<longrightarrow>
      fst (close_try S w) = Inr () \<and>
      imap_conn (snd (close_connections S w)) = None \<and>
      smtp_conn (snd (close_connections S w)) = None \<and>
      clock (snd (close_connections S w)) = clock w)"
proof (intro conjI allI impI)
  show "fst (close_connections S w) = Returns_None"
    by (simp add: close_connections_def split: prod.splits sum.splits)
next
  fix e assume "fst (close_try S w) = Inl e"
  then show "last (trace (snd (close_connections S w))) = Log_warning Close_warning (exn_str e)"
    by (auto simp: close_connections_def split: prod.splits sum.splits)
next
  assume "\<exists>u. fst (close_try S w) = Inr u"
  then have r: "fst (close_try S w) = Inr ()" by auto
  have i: "fst (close_imap S w) = Inr u \<Longrightarrow> imap_conn (snd (close_imap S w)) = None \<and>
      smtp_conn (snd (close_imap S w)) = smtp_conn w" for u
    by (auto simp: close_imap_def Let_def split: option.splits)
  have s: "fst (close_smtp S w') = Inr u \<Longrightarrow> smtp_conn (snd (close_smtp S w')) = None \<and>
      imap_conn (snd (close_smtp S w')) = imap_conn w'" for u w'
    by (auto simp: close_smtp_def Let_def split: option.splits)
  from r show "imap_conn (snd (close_connections S w)) = None"
    using i s [of "snd (close_imap S w)"]
    by (auto simp: close_connections_def close_try_def split: prod.splits sum.splits)
  from r show "smtp_conn (snd (close_connections S w)) = None"
    using i s [of "snd (close_imap S w)"]
    by (auto simp: close_connections_def close_try_def split: prod.splits sum.splits)
next
  assume n: "imap_conn w = None \<and> smtp_conn w = None"
  then show "fst (close_try S w) = Inr ()"
    "imap_conn (snd (close_connections S w)) = None"
    "smtp_conn (snd (close_connections S w)) = None"
    "clock (snd (close_connections S w)) = clock w"
    by (simp_all add: close_connections_def close_try_def close_imap_def close_smtp_def)
qed

lemma close_connections_example:
  "imap_conn (snd (close_connections (server_ok []) tool_connected)) = None \<and>
   smtp_conn (snd (close_connections (server_ok []) tool_connected)) = None \<and>
   imap_conn (snd (close_connections server_no_close tool0)) = None \<and>
   smtp_conn (snd (close_connections server_no_close tool0)) = None \<and>
   clock (snd (close_connections server_no_close tool0)) = 0 \<and>
   last (trace (snd (close_connections server_no_close tool_connected))) =
     Log_warning Close_warning (ascii ''command CLOSE illegal in state AUTH'')"
proof -
  have ok: "fst (close_try (server_ok []) tool_connected) = Inr ()"
    by (simp add: close_try_def close_imap_def close_smtp_def server_ok_def tool_connected_def
        tool0_def Let_def emit_def tick_def)
  have bad: "fst (close_try server_no_close tool_connected) =
      Inl (Exn IMAP4_error (ascii ''command CLOSE illegal in state AUTH''))"
    by (simp add: close_try_def close_imap_def server_no_close_def server_ok_def
        tool_connected_def tool0_def Let_def emit_def tick_def)
  show ?thesis
    using close_connections_behaviour [of "server_ok []" tool_connected]
      close_connections_behaviour [of server_no_close tool0]
      close_connections_behaviour [of server_no_close tool_connected] ok bad
    by simp
qed

lemma close_refused:
  assumes "imap_conn w = Some h" and "imap_close_r S (clock w) = Some e"
  shows "fst (close_connections S w) = Returns_None"
    and "imap_conn (snd (close_connections S w)) = Some h"
    and "smtp_conn (snd (close_connections S w)) = smtp_conn w"
    and "events_since w (snd (close_connections S w)) =
      [Imap_close h, Log_warning Close_warning (exn_str e)]"
  using assms
  by (simp_all add: close_connections_def close_try_def close_imap_def events_since_def)

lemma quit_refused:
  assumes "imap_conn w = Some h" and "smtp_conn w = Some k"
    and "imap_close_r S (clock w) = None" and "imap_logout_r S (Suc (clock w)) = None"
    and "smtp_quit_r S (Suc (Suc (clock w))) = Some e"
  shows "imap_conn (snd (close_connections S w)) = None"
    and "smtp_conn (snd (close_connections S w)) = Some k"
    and "events_since w (snd (close_connections S w)) =
      [Imap_close h, Imap_logout h, Smtp_quit k, Log_warning Close_warning (exn_str e)]"
  using assms
  by (simp_all add: close_connections_def close_try_def close_imap_def close_smtp_def Let_def
      events_since_def)

lemma read_attempt_missing_folder:
  "read_attempt L server_missing_folder folder limit w =
     (case imap_conn w of
        Some h \<Rightarrow>
          (Inl (Exn Exception (folder_not_found folder)), emit [Imap_select h folder] (tick w))
      | None \<Rightarrow>
          (Inl (Exn Exception (folder_not_found folder)),
           emit [Imap_select (next_handle w) folder]
             (tick (emit [Imap_login (next_handle w), Log_info Imap_connected]
                (tick ((emit [Imap_open (next_handle w)] (tick w))
                   \<lparr>imap_conn := Some (next_handle w), next_handle := Suc (next_handle w)\<rparr>))))))"
  by (simp add: read_attempt_def connect_imap_def read_session_def server_missing_folder_def
      server_ok_def Let_def ascii_simps split: option.splits)

lemma read_missing_folder:
  "fst (mail_read L server_missing_folder folder limit tool0) =
     Returns (Read_failed (folder_not_found folder) [] 0)"
  "imap_conn (snd (mail_read L server_missing_folder folder limit tool0)) = Some 2"
  "smtp_conn (snd (mail_read L server_missing_folder folder limit tool0)) = None"
  by (simp_all add: mail_read_def retry_loop.simps read_attempt_missing_folder)

text \<open>
  Claim C3 does not hold of the code when a closing step fails: the assignments that
  clear the slots follow the closing calls inside the \<^verbatim>\<open>try\<close> block, so a raising call
  skips them. After \<^verbatim>\<open>mail_read\<close> on a folder the mailbox lacks, which is the command
  \<^verbatim>\<open>read nope\<close>, the slot holds session 2 in the authenticated state; \<^verbatim>\<open>close\<close> raises
  there, \<^verbatim>\<open>close_connections\<close> logs it and returns with the reference still set, and
  \<^verbatim>\<open>logout\<close> is never sent. With both slots filled, a refused \<^verbatim>\<open>close\<close> leaves both
  references set and sends neither \<^verbatim>\<open>logout\<close> nor \<^verbatim>\<open>quit\<close>; a failing \<^verbatim>\<open>quit\<close> leaves
  the SMTP reference set after the IMAP one has been cleared.
\<close>

theorem close_skips_clearing:
  "fst (mail_read ascii_lib server_missing_folder (ascii ''nope'') 10 tool0) =
     Returns (Read_failed (folder_not_found (ascii ''nope'')) [] 0) \<and>
   imap_conn (snd (mail_read ascii_lib server_missing_folder (ascii ''nope'') 10 tool0)) = Some 2 \<and>
   fst (close_connections server_missing_folder
     (snd (mail_read ascii_lib server_missing_folder (ascii ''nope'') 10 tool0))) = Returns_None \<and>
   imap_conn (snd (close_connections server_missing_folder
     (snd (mail_read ascii_lib server_missing_folder (ascii ''nope'') 10 tool0)))) = Some 2 \<and>
   events_since (snd (mail_read ascii_lib server_missing_folder (ascii ''nope'') 10 tool0))
     (snd (close_connections server_missing_folder
       (snd (mail_read ascii_lib server_missing_folder (ascii ''nope'') 10 tool0)))) =
     [Imap_close 2, Log_warning Close_warning
        (ascii ''command CLOSE illegal in state AUTH, only allowed in states SELECTED'')] \<and>
   imap_conn (snd (close_connections server_no_close tool_connected)) = Some 0 \<and>
   smtp_conn (snd (close_connections server_no_close tool_connected)) = Some 1 \<and>
   events_since tool_connected (snd (close_connections server_no_close tool_connected)) =
     [Imap_close 0, Log_warning Close_warning (ascii ''command CLOSE illegal in state AUTH'')] \<and>
   imap_conn (snd (close_connections server_no_quit tool_connected)) = None \<and>
   smtp_conn (snd (close_connections server_no_quit tool_connected)) = Some 1 \<and>
   events_since tool_connected (snd (close_connections server_no_quit tool_connected)) =
     [Imap_close 0, Imap_logout 0, Smtp_quit 1,
      Log_warning Close_warning (ascii ''Connection unexpectedly closed'')]"
proof -
  let ?w1 = "snd (mail_read ascii_lib server_missing_folder (ascii ''nope'') 10 tool0)"
  have r: "imap_close_r server_missing_folder (clock ?w1) = Some (Exn IMAP4_error
       (ascii ''command CLOSE illegal in state AUTH, only allowed in states SELECTED''))"
    by (simp add: server_missing_folder_def)
  note c1 = close_refused [OF read_missing_folder(2) r]
  have c: "imap_conn tool_connected = Some 0" "smtp_conn tool_connected = Some 1"
    by (simp_all add: tool_connected_def tool0_def)
  have r2: "imap_close_r server_no_close (clock tool_connected) =
      Some (Exn IMAP4_error (ascii ''command CLOSE illegal in state AUTH''))"
    by (simp add: server_no_close_def)
  note c2 = close_refused [OF c(1) r2]
  have r3: "imap_close_r server_no_quit (clock tool_connected) = None"
    "imap_logout_r server_no_quit (Suc (clock tool_connected)) = None"
    "smtp_quit_r server_no_quit (Suc (Suc (clock tool_connected))) =
       Some (Exn SMTPException (ascii ''Connection unexpectedly closed''))"
    by (simp_all add: server_no_quit_def server_ok_def)
  note c3 = quit_refused [OF c r3]
  show ?thesis
    using c1 c2 c3 by (simp add: read_missing_folder c)
qed

section \<open>Sessions and failed attempts\<close>



















end
